theory Spec2Isabelle
  imports Complex_Main
begin

section \<open>JavaScript strings and values\<close>

text \<open>
  Strings are lists of 8-bit characters (the UTF-8 bytes of the text). The string
  methods below follow their JavaScript namesakes on ASCII text; white space is the
  ASCII white space that \<open>String.prototype.trim\<close> strips.
\<close>

definition is_space :: "char \<Rightarrow> bool" where
  "is_space c = (c \<in> set [CHR 0x09, CHR 0x0A, CHR 0x0B, CHR 0x0C, CHR 0x0D, CHR 0x20])"

definition trim :: "string \<Rightarrow> string" where
  "trim s = rev (dropWhile is_space (rev (dropWhile is_space s)))"

definition startsWith :: "string \<Rightarrow> string \<Rightarrow> bool" where
  "startsWith s p = (take (length p) s = p)"

definition slice_from :: "string \<Rightarrow> nat \<Rightarrow> string" where
  "slice_from s n = drop n s"

definition substring_from :: "string \<Rightarrow> nat \<Rightarrow> string" where
  "substring_from s a = drop a s"

definition substring :: "string \<Rightarrow> nat \<Rightarrow> nat \<Rightarrow> string" where
  "substring s a b = take (max a b - min a b) (drop (min a b) s)"

definition indexOf :: "string \<Rightarrow> char \<Rightarrow> nat \<Rightarrow> nat option" where
  "indexOf s c start = List.find (\<lambda>i. s ! i = c) [start ..< length s]"

fun split :: "char \<Rightarrow> string \<Rightarrow> string list" where
  "split c [] = [[]]"
| "split c (x # xs) =
     (if x = c then [] # split c xs
      else (case split c xs of [] \<Rightarrow> [[x]] | l # ls \<Rightarrow> (x # l) # ls))"

fun str_includes :: "string \<Rightarrow> string \<Rightarrow> bool" where
  "str_includes [] sub = (sub = [])"
| "str_includes (x # xs) sub = (startsWith (x # xs) sub \<or> str_includes xs sub)"

definition lower_ascii :: "char \<Rightarrow> char" where
  "lower_ascii c =
     (if 65 \<le> (of_char c :: nat) \<and> (of_char c :: nat) \<le> 90
      then char_of ((of_char c :: nat) + 32) else c)"

text \<open>
  \<open>toLowerCase\<close> folds the ASCII capital letters and the Cyrillic capital letters
  U+0400 to U+042F (two bytes each, the first one \<open>0xD0\<close>); every other character is
  left as it is.
\<close>

fun toLowerCase :: "string \<Rightarrow> string" where
  "toLowerCase [] = []"
| "toLowerCase [c] = [lower_ascii c]"
| "toLowerCase (c # d # s) =
     (if c = CHR 0xD0 \<and> 0x80 \<le> (of_char d :: nat) \<and> (of_char d :: nat) \<le> 0x8F
        then CHR 0xD1 # char_of ((of_char d :: nat) + 0x10) # toLowerCase s
      else if c = CHR 0xD0 \<and> 0x90 \<le> (of_char d :: nat) \<and> (of_char d :: nat) \<le> 0x9F
        then CHR 0xD0 # char_of ((of_char d :: nat) + 0x20) # toLowerCase s
      else if c = CHR 0xD0 \<and> 0xA0 \<le> (of_char d :: nat) \<and> (of_char d :: nat) \<le> 0xAF
        then CHR 0xD1 # char_of ((of_char d :: nat) - 0x20) # toLowerCase s
      else lower_ascii c # toLowerCase (d # s))"

definition digit_char :: "nat \<Rightarrow> char" where
  "digit_char d = char_of (48 + d)"

fun show_nat :: "nat \<Rightarrow> string" where
  "show_nat n = (if n < 10 then [digit_char n] else show_nat (n div 10) @ [digit_char (n mod 10)])"

declare show_nat.simps [simp del]

text \<open>
  A decoded JSON value. An object keeps its members in the order they were written;
  a key written twice has the value written last, as \<open>JSON.parse\<close> gives it.
  \<open>undefined\<close> is \<open>None\<close> of \<open>json option\<close>.
\<close>

datatype json =
    JNull
  | JBool bool
  | JNumber rat
  | JString string
  | JArray "json list"
  | JObject "(string \<times> json) list"

type_synonym jsval = "json option"

datatype error = SyntaxError | TypeError | Error json | NetworkError

fun truthy :: "json \<Rightarrow> bool" where
  "truthy JNull = False"
| "truthy (JBool b) = b"
| "truthy (JNumber n) = (n \<noteq> 0)"
| "truthy (JString s) = (s \<noteq> [])"
| "truthy (JArray xs) = True"
| "truthy (JObject kvs) = True"

definition truthy_val :: "jsval \<Rightarrow> bool" where
  "truthy_val v = (case v of None \<Rightarrow> False | Some x \<Rightarrow> truthy x)"

fun is_string :: "jsval \<Rightarrow> bool" where
  "is_string (Some (JString s)) = True"
| "is_string v = False"

text \<open>
  Property access \<open>v.k\<close> on a value that is neither \<open>null\<close> nor \<open>undefined\<close>, for
  the property names the decoder reads (none of them is a built-in property of
  strings, arrays, numbers or booleans).
\<close>

fun get_prop :: "json \<Rightarrow> string \<Rightarrow> jsval" where
  "get_prop (JObject kvs) k = map_of (rev kvs) k"
| "get_prop v k = None"

text \<open>\<open>v.k\<close>: a TypeError on \<open>null\<close>.\<close>

definition member :: "json \<Rightarrow> string \<Rightarrow> error + jsval" where
  "member v k = (if v = JNull then Inl TypeError else Inr (get_prop v k))"

text \<open>\<open>v?.k\<close>: \<open>undefined\<close> on \<open>null\<close> and \<open>undefined\<close>.\<close>

definition opt_member :: "jsval \<Rightarrow> string \<Rightarrow> jsval" where
  "opt_member v k =
     (case v of None \<Rightarrow> None | Some x \<Rightarrow> if x = JNull then None else get_prop x k)"

text \<open>\<open>v?.[0]\<close>: the first element of an array, the first character of a string,
  the member \<open>"0"\<close> of an object.\<close>

fun index0 :: "json \<Rightarrow> jsval" where
  "index0 (JArray xs) = (case xs of [] \<Rightarrow> None | x # _ \<Rightarrow> Some x)"
| "index0 (JString s) = (case s of [] \<Rightarrow> None | c # _ \<Rightarrow> Some (JString [c]))"
| "index0 (JObject kvs) = map_of (rev kvs) ''0''"
| "index0 v = None"

definition opt_index0 :: "jsval \<Rightarrow> jsval" where
  "opt_index0 v =
     (case v of None \<Rightarrow> None | Some x \<Rightarrow> if x = JNull then None else index0 x)"

text \<open>\<open>v || d\<close> and \<open>v || null\<close>.\<close>

definition or_else :: "jsval \<Rightarrow> json \<Rightarrow> json" where
  "or_else v d = (case v of None \<Rightarrow> d | Some x \<Rightarrow> if truthy x then x else d)"

definition or_null :: "jsval \<Rightarrow> json" where
  "or_null v = or_else v JNull"

text \<open>
  The conversion of a value to a string, as string concatenation and the \<open>Error\<close>
  constructor do it, throws a TypeError exactly when it meets an object with a member
  \<open>toString\<close> of its own (which, coming from JSON, is not a function): every other
  object is \<open>[object Object]\<close>, and an array is the conversions of its elements, joined.
\<close>

fun convertible :: "json \<Rightarrow> bool" where
  "convertible (JObject kvs) = (\<not> list_ex (\<lambda>kv. fst kv = ''toString'') kvs)"
| "convertible (JArray xs) = list_all convertible xs"
| "convertible v = True"

section \<open>The content extractor\<close>

text \<open>
  \<open>extractContent\<close> of \<open>streamChatCompletion\<close>. The first access \<open>json.choices\<close>
  throws on \<open>null\<close>; logging a truthy \<open>reasoning_content\<close> calls its \<open>substring\<close>,
  which throws unless it is a string. Then the shapes are tried in order and the first
  truthy field is taken; \<open>content\<close> starts as the empty string.
\<close>

definition extractContent :: "json \<Rightarrow> error + json" where
  "extractContent json =
     (case member json ''choices'' of
        Inl e \<Rightarrow> Inl e
      | Inr choices \<Rightarrow>
          let choice0 = opt_index0 choices;
              delta = opt_member choice0 ''delta'';
              reasoning = opt_member delta ''reasoning_content''
          in if truthy_val reasoning \<and> \<not> is_string reasoning then Inl TypeError
             else
               let content =
                 (if truthy_val (opt_member delta ''content'')
                    then opt_member delta ''content''
                  else if truthy_val (opt_member delta ''text'')
                    then opt_member delta ''text''
                  else if truthy_val (opt_member (opt_member choice0 ''message'') ''content'')
                    then opt_member (opt_member choice0 ''message'') ''content''
                  else if truthy_val (opt_member choice0 ''text'')
                    then opt_member choice0 ''text''
                  else if truthy_val (opt_member (opt_index0 (opt_member (opt_member
                            (opt_index0 (get_prop json ''candidates'')) ''content'') ''parts'')) ''text'')
                    then opt_member (opt_index0 (opt_member (opt_member
                            (opt_index0 (get_prop json ''candidates'')) ''content'') ''parts'')) ''text''
                  else if truthy_val (get_prop json ''content'')
                    then get_prop json ''content''
                  else if truthy_val (get_prop json ''text'')
                    then get_prop json ''text''
                  else Some (JString []))
               in Inr (or_null content))"

section \<open>The streaming decoder\<close>

record process_result =
  content :: json
  incomplete :: bool

text \<open>
  \<open>processLine\<close>. \<open>parse\<close> is the platform's \<open>JSON.parse\<close>, \<open>None\<close> when it throws.
  An exception of \<open>extractContent\<close> is caught by the same handler.
\<close>

definition processLine :: "(string \<Rightarrow> json option) \<Rightarrow> string \<Rightarrow> process_result" where
  "processLine parse line =
     (let trimmed = trim line in
      if trimmed = [] \<or> trimmed = ''data: [DONE]'' then \<lparr>content = JNull, incomplete = False\<rparr>
      else if \<not> startsWith trimmed ''data: '' then \<lparr>content = JNull, incomplete = False\<rparr>
      else (case parse (slice_from trimmed 6) of
              None \<Rightarrow> \<lparr>content = JNull, incomplete = True\<rparr>
            | Some json \<Rightarrow>
                (case extractContent json of
                   Inl e \<Rightarrow> \<lparr>content = JNull, incomplete = True\<rparr>
                 | Inr c \<Rightarrow> \<lparr>content = c, incomplete = False\<rparr>)))"

text \<open>
  The inner \<open>while (true)\<close> of the read loop, over the buffer after a chunk was appended.
  It returns the fragments it yields, in order, and then either the final
  \<open>processedUpTo\<close> or the error it throws. The running total of the log,
  \<open>totalContentReceived += result.content\<close>, is outside every \<open>try\<close>: it throws a
  TypeError, before the content is yielded, when the content cannot be converted to a
  string.
\<close>

function inner_loop ::
  "(string \<Rightarrow> json option) \<Rightarrow> string \<Rightarrow> nat \<Rightarrow> nat \<Rightarrow> json list \<times> (error + nat)" where
  "inner_loop parse buffer processedUpTo searchStart =
     (case indexOf buffer (CHR 0x0A) searchStart of
        None \<Rightarrow> ([], Inr processedUpTo)
      | Some newlineIndex \<Rightarrow>
          let line = substring buffer processedUpTo newlineIndex in
          if trim line = [] then inner_loop parse buffer (newlineIndex + 1) (newlineIndex + 1)
          else
            let result = processLine parse line in
            if incomplete result then
              (if newlineIndex + 1 \<ge> length buffer then ([], Inr processedUpTo)
               else inner_loop parse buffer processedUpTo (newlineIndex + 1))
            else if truthy (content result) then
              (if \<not> convertible (content result) then ([], Inl TypeError)
               else
                 let (ys, r) = inner_loop parse buffer (newlineIndex + 1) (newlineIndex + 1)
                 in (content result # ys, r))
            else inner_loop parse buffer (newlineIndex + 1) (newlineIndex + 1))"
  by pat_completeness auto
termination
  by (relation "measure (\<lambda>(parse, buffer, processedUpTo, searchStart). length buffer - searchStart)")
     (auto simp: indexOf_def find_Some_iff)

declare inner_loop.simps [simp del]

text \<open>The loop over the lines of the buffer that is left when the stream has ended.\<close>

definition final_line :: "(string \<Rightarrow> json option) \<Rightarrow> string \<Rightarrow> json list" where
  "final_line parse line =
     (let trimmed = trim line in
      if trimmed = [] \<or> trimmed = ''data: [DONE]'' then []
      else if \<not> startsWith trimmed ''data: '' then []
      else (case parse (slice_from trimmed 6) of
              None \<Rightarrow> []
            | Some json \<Rightarrow>
                (case extractContent json of
                   Inl e \<Rightarrow> []
                 | Inr c \<Rightarrow> if truthy c then [c] else [])))"

definition final_buffer :: "(string \<Rightarrow> json option) \<Rightarrow> string \<Rightarrow> json list" where
  "final_buffer parse buffer =
     (if trim buffer \<noteq> [] then concat (map (final_line parse) (split (CHR 0x0A) buffer))
      else [])"

text \<open>
  The outer \<open>while (true)\<close>: one iteration for each chunk the reader delivers, then the
  end of the stream. A chunk is the text that the decoder gives for a raw chunk; the body
  ends on a character boundary, so that the final call of the decoder returns nothing.
  The result is what the generator does: the fragments it yields, in order, and then
  the error it throws, if it throws.
\<close>

fun read_loop ::
  "(string \<Rightarrow> json option) \<Rightarrow> string \<Rightarrow> string list \<Rightarrow> json list \<times> error option" where
  "read_loop parse buffer [] = (final_buffer parse buffer, None)"
| "read_loop parse buffer (rawChunk # chunks) =
     (let buffer1 = buffer @ rawChunk in
      case inner_loop parse buffer1 0 0 of
        (ys, Inl e) \<Rightarrow> (ys, Some e)
      | (ys, Inr processedUpTo) \<Rightarrow>
          (let buffer2 =
                 (if processedUpTo > 0 then substring_from buffer1 processedUpTo else buffer1);
               (zs, e) = read_loop parse buffer2 chunks
           in (ys @ zs, e)))"

declare read_loop.simps(2) [simp del]

section \<open>JSON.parse\<close>

text \<open>
  A model of the platform's \<open>JSON.parse\<close> on byte strings, used to run the decoder on
  concrete streams: the JSON grammar with numbers as exact rationals. A Unicode escape
  is stored as the UTF-8 bytes of its code unit. \<open>None\<close> is a SyntaxError.
\<close>

definition is_digit :: "char \<Rightarrow> bool" where
  "is_digit c = (48 \<le> (of_char c :: nat) \<and> (of_char c :: nat) \<le> 57)"

definition digit_val :: "char \<Rightarrow> nat" where
  "digit_val c = of_char c - 48"

definition nat_of_digits :: "string \<Rightarrow> nat" where
  "nat_of_digits ds = foldl (\<lambda>a c. 10 * a + digit_val c) 0 ds"

definition is_json_ws :: "char \<Rightarrow> bool" where
  "is_json_ws c = (c \<in> set [CHR 0x20, CHR 0x09, CHR 0x0A, CHR 0x0D])"

definition skip_ws :: "string \<Rightarrow> string" where
  "skip_ws s = dropWhile is_json_ws s"

definition hex_val :: "char \<Rightarrow> nat option" where
  "hex_val c =
     (let n = (of_char c :: nat) in
      if 48 \<le> n \<and> n \<le> 57 then Some (n - 48)
      else if 65 \<le> n \<and> n \<le> 70 then Some (n - 55)
      else if 97 \<le> n \<and> n \<le> 102 then Some (n - 87)
      else None)"

definition utf8 :: "nat \<Rightarrow> string" where
  "utf8 cp =
     (if cp < 0x80 then [char_of cp]
      else if cp < 0x800 then [char_of (0xC0 + cp div 64), char_of (0x80 + cp mod 64)]
      else [char_of (0xE0 + cp div 4096), char_of (0x80 + (cp div 64) mod 64),
            char_of (0x80 + cp mod 64)])"

definition unicode_escape :: "string \<Rightarrow> string option" where
  "unicode_escape s =
     (case map hex_val (take 4 s) of
        [Some a, Some b, Some c, Some d] \<Rightarrow> Some (utf8 (((a * 16 + b) * 16 + c) * 16 + d))
      | _ \<Rightarrow> None)"

definition simple_escape :: "char \<Rightarrow> char option" where
  "simple_escape e =
     (if e = CHR 0x22 then Some (CHR 0x22)
      else if e = CHR 0x5C then Some (CHR 0x5C)
      else if e = CHR ''/'' then Some (CHR ''/'')
      else if e = CHR ''b'' then Some (CHR 0x08)
      else if e = CHR ''f'' then Some (CHR 0x0C)
      else if e = CHR ''n'' then Some (CHR 0x0A)
      else if e = CHR ''r'' then Some (CHR 0x0D)
      else if e = CHR ''t'' then Some (CHR 0x09)
      else None)"

text \<open>The characters of a string literal after its opening quote, and what follows it.\<close>

fun string_body :: "string \<Rightarrow> (string \<times> string) option" where
  "string_body [] = None"
| "string_body [c] = (if c = CHR 0x22 then Some ([], []) else None)"
| "string_body (c # e # es) =
     (if c = CHR 0x22 then Some ([], e # es)
      else if c = CHR 0x5C then
        (if e = CHR ''u'' then
           (case unicode_escape es of
              None \<Rightarrow> None
            | Some u \<Rightarrow>
                (case string_body (drop 4 es) of
                   None \<Rightarrow> None
                 | Some (t, r) \<Rightarrow> Some (u @ t, r)))
         else
           (case simple_escape e of
              None \<Rightarrow> None
            | Some x \<Rightarrow>
                (case string_body es of
                   None \<Rightarrow> None
                 | Some (t, r) \<Rightarrow> Some (x # t, r))))
      else if (of_char c :: nat) < 32 then None
      else (case string_body (e # es) of
              None \<Rightarrow> None
            | Some (t, r) \<Rightarrow> Some (c # t, r)))"

text \<open>A number literal: \<open>-? (0 | [1-9][0-9]*) (. [0-9]+)? ([eE] [+-]? [0-9]+)?\<close>.\<close>

definition exponent_part :: "string \<Rightarrow> (int \<times> string) option" where
  "exponent_part s =
     (case s of
        [] \<Rightarrow> Some (0, s)
      | c # t \<Rightarrow>
          if c = CHR ''e'' \<or> c = CHR ''E'' then
            (let neg = (case t of [] \<Rightarrow> False | d # _ \<Rightarrow> d = CHR ''-'');
                 t1 = (case t of [] \<Rightarrow> t | d # u \<Rightarrow> if d = CHR ''-'' \<or> d = CHR ''+'' then u else t);
                 ds = takeWhile is_digit t1
             in if ds = [] then None
                else Some ((if neg then - int (nat_of_digits ds) else int (nat_of_digits ds)),
                           dropWhile is_digit t1))
          else Some (0, s))"

definition fraction_part :: "string \<Rightarrow> (string \<times> string) option" where
  "fraction_part s =
     (case s of
        [] \<Rightarrow> Some ([], s)
      | c # t \<Rightarrow>
          if c = CHR ''.'' then
            (if takeWhile is_digit t = [] then None
             else Some (takeWhile is_digit t, dropWhile is_digit t))
          else Some ([], s))"

definition number :: "string \<Rightarrow> (rat \<times> string) option" where
  "number s =
     (let neg = (case s of [] \<Rightarrow> False | c # _ \<Rightarrow> c = CHR ''-'');
          s1 = (if neg then drop 1 s else s);
          ip = takeWhile is_digit s1
      in if ip = [] \<or> (length ip > 1 \<and> take 1 ip = ''0'') then None
         else
           (case fraction_part (dropWhile is_digit s1) of
              None \<Rightarrow> None
            | Some (fp, s2) \<Rightarrow>
                (case exponent_part s2 of
                   None \<Rightarrow> None
                 | Some (e, s3) \<Rightarrow>
                     let m = of_nat (nat_of_digits (ip @ fp)) / 10 ^ length fp;
                         v = (if e \<ge> 0 then m * 10 ^ nat e else m / 10 ^ nat (- e))
                     in Some (if neg then - v else v, s3))))"

text \<open>
  Values, the elements of an array after \<open>[\<close> and the members of an object after
  \<open>{\<close>. The first argument bounds the number of nested calls.
\<close>

fun json_value :: "nat \<Rightarrow> string \<Rightarrow> (json \<times> string) option"
  and json_elements :: "nat \<Rightarrow> string \<Rightarrow> (json list \<times> string) option"
  and json_members :: "nat \<Rightarrow> string \<Rightarrow> ((string \<times> json) list \<times> string) option"
where
  "json_value 0 s = None"
| "json_value (Suc n) s =
     (case skip_ws s of
        [] \<Rightarrow> None
      | c # cs \<Rightarrow>
          if c = CHR ''{'' then
            (case skip_ws cs of
               [] \<Rightarrow> None
             | d # ds \<Rightarrow>
                 if d = CHR ''}'' then Some (JObject [], ds)
                 else (case json_members n (d # ds) of
                         None \<Rightarrow> None
                       | Some (kvs, r) \<Rightarrow> Some (JObject kvs, r)))
          else if c = CHR ''['' then
            (case skip_ws cs of
               [] \<Rightarrow> None
             | d # ds \<Rightarrow>
                 if d = CHR '']'' then Some (JArray [], ds)
                 else (case json_elements n (d # ds) of
                         None \<Rightarrow> None
                       | Some (vs, r) \<Rightarrow> Some (JArray vs, r)))
          else if c = CHR 0x22 then
            (case string_body cs of
               None \<Rightarrow> None
             | Some (t, r) \<Rightarrow> Some (JString t, r))
          else if startsWith (c # cs) ''true'' then Some (JBool True, drop 4 (c # cs))
          else if startsWith (c # cs) ''false'' then Some (JBool False, drop 5 (c # cs))
          else if startsWith (c # cs) ''null'' then Some (JNull, drop 4 (c # cs))
          else (case number (c # cs) of
                  None \<Rightarrow> None
                | Some (x, r) \<Rightarrow> Some (JNumber x, r)))"
| "json_elements 0 s = None"
| "json_elements (Suc n) s =
     (case json_value n s of
        None \<Rightarrow> None
      | Some (v, r) \<Rightarrow>
          (case skip_ws r of
             [] \<Rightarrow> None
           | c # cs \<Rightarrow>
               if c = CHR '','' then
                 (case json_elements n cs of
                    None \<Rightarrow> None
                  | Some (vs, r') \<Rightarrow> Some (v # vs, r'))
               else if c = CHR '']'' then Some ([v], cs)
               else None))"
| "json_members 0 s = None"
| "json_members (Suc n) s =
     (case skip_ws s of
        [] \<Rightarrow> None
      | q # qs \<Rightarrow>
          if q \<noteq> CHR 0x22 then None
          else
            (case string_body qs of
               None \<Rightarrow> None
             | Some (k, r) \<Rightarrow>
                 (case skip_ws r of
                    [] \<Rightarrow> None
                  | c # cs \<Rightarrow>
                      if c \<noteq> CHR '':'' then None
                      else
                        (case json_value n cs of
                           None \<Rightarrow> None
                         | Some (v, r1) \<Rightarrow>
                             (case skip_ws r1 of
                                [] \<Rightarrow> None
                              | d # ds \<Rightarrow>
                                  if d = CHR '','' then
                                    (case json_members n ds of
                                       None \<Rightarrow> None
                                     | Some (kvs, r2) \<Rightarrow> Some ((k, v) # kvs, r2))
                                  else if d = CHR ''}'' then Some ([(k, v)], ds)
                                  else None)))))"

definition JSON_parse :: "string \<Rightarrow> json option" where
  "JSON_parse s =
     (case json_value (2 * length s + 2) s of
        None \<Rightarrow> None
      | Some (v, r) \<Rightarrow> if skip_ws r = [] then Some v else None)"


section \<open>streamChatCompletion\<close>

definition API_BASE_URL :: string where
  "API_BASE_URL = ''https://open.anycorp.dev/v1''"

definition DEFAULT_API_KEY :: string where
  "DEFAULT_API_KEY = ''sk-public''"

record message =
  role :: string
  msg_content :: string

text \<open>The \<open>options\<close> argument; a field that is \<open>None\<close> is absent and takes its default.\<close>

record options =
  model :: "string option"
  apiKey :: "string option"
  systemPrompt :: "string option"
  temperature :: "rat option"
  agentMode :: "bool option"
  forceNonStreaming :: "bool option"

definition model_of :: "options \<Rightarrow> string" where
  "model_of options = (case model options of None \<Rightarrow> ''gemini-2.5-flash'' | Some m \<Rightarrow> m)"

definition apiKey_of :: "options \<Rightarrow> string" where
  "apiKey_of options = (case apiKey options of None \<Rightarrow> DEFAULT_API_KEY | Some k \<Rightarrow> k)"

definition systemPrompt_of :: "options \<Rightarrow> string" where
  "systemPrompt_of options =
     (case systemPrompt options of None \<Rightarrow> ''You are a helpful assistant.'' | Some p \<Rightarrow> p)"

definition temperature_of :: "options \<Rightarrow> rat" where
  "temperature_of options = (case temperature options of None \<Rightarrow> 7 / 10 | Some t \<Rightarrow> t)"

definition agentMode_of :: "options \<Rightarrow> bool" where
  "agentMode_of options = (case agentMode options of None \<Rightarrow> False | Some b \<Rightarrow> b)"

definition forceNonStreaming_of :: "options \<Rightarrow> bool" where
  "forceNonStreaming_of options = (case forceNonStreaming options of None \<Rightarrow> False | Some b \<Rightarrow> b)"

definition needsNonStreaming :: "string \<Rightarrow> bool" where
  "needsNonStreaming m =
     (let modelLower = toLowerCase m;
          isThinkingModel = str_includes modelLower ''thinking'';
          isGemini3Model = str_includes modelLower ''gemini-3''
      in isThinkingModel \<or> isGemini3Model)"

definition useStreaming :: "options \<Rightarrow> bool" where
  "useStreaming options =
     (\<not> forceNonStreaming_of options \<and> \<not> needsNonStreaming (model_of options))"

definition finalSystemPrompt :: "options \<Rightarrow> string" where
  "finalSystemPrompt options =
     (if agentMode_of options
      then systemPrompt_of options @
        ''\<newline>\<newline>When creating apps, provide the full code for every file including filename comments (e.g., ### filename.ext or ```language:filename.ext) so I can save them. Always include complete file contents.''
      else systemPrompt_of options)"

text \<open>The request that is handed to \<open>fetch\<close>: a POST of the JSON body to \<open>url\<close>.\<close>

record chat_request =
  request_url :: string
  authorization :: string
  body_model :: string
  body_messages :: "message list"
  body_temperature :: rat
  body_stream :: bool

definition chatRequest :: "message list \<Rightarrow> options \<Rightarrow> chat_request" where
  "chatRequest messages options =
     \<lparr>request_url = API_BASE_URL @ ''/chat/completions'',
      authorization = ''Bearer '' @ apiKey_of options,
      body_model = model_of options,
      body_messages =
        \<lparr>role = ''system'', msg_content = finalSystemPrompt options\<rparr>
          # map (\<lambda>msg. \<lparr>role = role msg, msg_content = msg_content msg\<rparr>) messages,
      body_temperature = temperature_of options,
      body_stream = useStreaming options\<rparr>"

text \<open>The response: its status and the text chunks its body arrives in, all delivered.\<close>

record response =
  ok :: bool
  status :: nat
  body :: "string list"

text \<open>
  \<open>streamChatCompletion\<close>: the fragments it yields, in order, and then the error it
  throws, if it throws. \<open>fetch\<close> is the platform's, an \<open>Inl\<close> when it rejects;
  \<open>response.json()\<close> parses the whole body; \<open>new Error(m)\<close> converts \<open>m\<close> to a string.
\<close>

definition streamChatCompletion ::
  "(chat_request \<Rightarrow> error + response) \<Rightarrow> (string \<Rightarrow> json option) \<Rightarrow>
   message list \<Rightarrow> options \<Rightarrow> json list \<times> error option" where
  "streamChatCompletion fetch parse messages options =
     (case fetch (chatRequest messages options) of
        Inl e \<Rightarrow> ([], Some e)
      | Inr response \<Rightarrow>
          if \<not> ok response then
            (let error =
               (case parse (concat (body response)) of
                  None \<Rightarrow> JObject [(''error'', JObject [(''message'', JString ''Unknown error'')])]
                | Some j \<Rightarrow> j)
             in case member error ''error'' of
                  Inl e \<Rightarrow> ([], Some e)
                | Inr err \<Rightarrow>
                    (let m = or_else (opt_member err ''message'')
                               (JString (''API Error: '' @ show_nat (status response)))
                     in if convertible m then ([], Some (Error m)) else ([], Some TypeError)))
          else if \<not> useStreaming options then
            (case parse (concat (body response)) of
               None \<Rightarrow> ([], Some SyntaxError)
             | Some data \<Rightarrow>
                 (case member data ''choices'' of
                    Inl e \<Rightarrow> ([], Some e)
                  | Inr choices \<Rightarrow>
                      let content =
                        or_else (opt_member (opt_member (opt_index0 choices) ''message'') ''content'')
                                (JString [])
                      in (if truthy content then [content] else [], None)))
          else read_loop parse [] (body response))"

section \<open>The intent classifier\<close>

text \<open>
  A model of the platform's regular expressions, for the constructs that the patterns of
  \<open>detectQueryIntent\<close> use, all of them with the flag \<open>i\<close>. A character of the pattern
  matches the same character in either ASCII case; the class of white space is the ASCII
  white space, the class of digits the decimal digits, and the dot is any character
  but a line feed or a carriage return.
\<close>

datatype atom = Chr char | AnyChar | WhiteSpace | DecimalDigit

datatype regex =
    Nothing
  | Empty
  | Atom atom
  | Seq regex regex
  | Alt regex regex
  | Star regex

fun atom_matches :: "atom \<Rightarrow> char \<Rightarrow> bool" where
  "atom_matches (Chr c) d = (lower_ascii d = lower_ascii c)"
| "atom_matches AnyChar d = (d \<noteq> CHR 0x0A \<and> d \<noteq> CHR 0x0D)"
| "atom_matches WhiteSpace d = is_space d"
| "atom_matches DecimalDigit d = is_digit d"

fun nullable :: "regex \<Rightarrow> bool" where
  "nullable Nothing = False"
| "nullable Empty = True"
| "nullable (Atom a) = False"
| "nullable (Seq r s) = (nullable r \<and> nullable s)"
| "nullable (Alt r s) = (nullable r \<or> nullable s)"
| "nullable (Star r) = True"

text \<open>Sequence and alternative, with a pattern that matches nothing removed.\<close>

fun mk_seq :: "regex \<Rightarrow> regex \<Rightarrow> regex" where
  "mk_seq Nothing s = Nothing"
| "mk_seq Empty s = s"
| "mk_seq r s = Seq r s"

fun mk_alt :: "regex \<Rightarrow> regex \<Rightarrow> regex" where
  "mk_alt Nothing s = s"
| "mk_alt r Nothing = r"
| "mk_alt r s = Alt r s"

text \<open>What is left of a pattern after it has read the character \<open>c\<close>.\<close>

fun deriv :: "char \<Rightarrow> regex \<Rightarrow> regex" where
  "deriv c Nothing = Nothing"
| "deriv c Empty = Nothing"
| "deriv c (Atom a) = (if atom_matches a c then Empty else Nothing)"
| "deriv c (Seq r s) =
     (if nullable r then mk_alt (mk_seq (deriv c r) s) (deriv c s) else mk_seq (deriv c r) s)"
| "deriv c (Alt r s) = mk_alt (deriv c r) (deriv c s)"
| "deriv c (Star r) = mk_seq (deriv c r) (Star r)"

text \<open>The pattern matches at the start of the string.\<close>

fun matches_prefix :: "regex \<Rightarrow> string \<Rightarrow> bool" where
  "matches_prefix Nothing s = False"
| "matches_prefix r [] = nullable r"
| "matches_prefix r (c # cs) = (if nullable r then True else matches_prefix (deriv c r) cs)"

text \<open>\<open>RegExp.prototype.test\<close>: the pattern matches somewhere in the string.\<close>

fun test :: "regex \<Rightarrow> string \<Rightarrow> bool" where
  "test r [] = nullable r"
| "test r (c # cs) = (if matches_prefix r (c # cs) then True else test r cs)"

definition lit :: "string \<Rightarrow> regex" where
  "lit s = foldr (\<lambda>c r. Seq (Atom (Chr c)) r) s Empty"

definition seq :: "regex list \<Rightarrow> regex" where
  "seq rs = foldr Seq rs Empty"

definition alts :: "regex list \<Rightarrow> regex" where
  "alts rs = foldr Alt rs Nothing"

definition opt :: "regex \<Rightarrow> regex" where
  "opt r = Alt r Empty"

definition plus :: "regex \<Rightarrow> regex" where
  "plus r = Seq r (Star r)"

text \<open>
  The Cyrillic words of the source, each as its UTF-8 bytes; the name is the word in
  Latin letters (\<open>q\<close> for the soft sign, \<open>X\<close> for U+FFFD, which stands in the
  source where a letter of one word was lost).
\<close>

definition ru_kako :: string where
  "ru_kako =
     [CHR 0xD0, CHR 0xBA, CHR 0xD0, CHR 0xB0, CHR 0xD0, CHR 0xBA, CHR 0xD0, CHR 0xBE]"

definition ru_e :: string where
  "ru_e =
     [CHR 0xD0, CHR 0xB5]"

definition ru_segodnya :: string where
  "ru_segodnya =
     [CHR 0xD1, CHR 0x81, CHR 0xD0, CHR 0xB5, CHR 0xD0, CHR 0xB3, CHR 0xD0, CHR 0xBE, CHR 0xD0,
      CHR 0xB4, CHR 0xD0, CHR 0xBD, CHR 0xD1, CHR 0x8F]"

definition ru_chislo :: string where
  "ru_chislo =
     [CHR 0xD1, CHR 0x87, CHR 0xD0, CHR 0xB8, CHR 0xD1, CHR 0x81, CHR 0xD0, CHR 0xBB, CHR 0xD0,
      CHR 0xBE]"

definition ru_data :: string where
  "ru_data =
     [CHR 0xD0, CHR 0xB4, CHR 0xD0, CHR 0xB0, CHR 0xD1, CHR 0x82, CHR 0xD0, CHR 0xB0]"

definition ru_vremya :: string where
  "ru_vremya =
     [CHR 0xD0, CHR 0xB2, CHR 0xD1, CHR 0x80, CHR 0xD0, CHR 0xB5, CHR 0xD0, CHR 0xBC, CHR 0xD1,
      CHR 0x8F]"

definition ru_denq :: string where
  "ru_denq =
     [CHR 0xD0, CHR 0xB4, CHR 0xD0, CHR 0xB5, CHR 0xD0, CHR 0xBD, CHR 0xD1, CHR 0x8C]"

definition ru_skolqko :: string where
  "ru_skolqko =
     [CHR 0xD1, CHR 0x81, CHR 0xD0, CHR 0xBA, CHR 0xD0, CHR 0xBE, CHR 0xD0, CHR 0xBB, CHR 0xD1,
      CHR 0x8C, CHR 0xD0, CHR 0xBA, CHR 0xD0, CHR 0xBE]"

definition ru_sejchas :: string where
  "ru_sejchas =
     [CHR 0xD1, CHR 0x81, CHR 0xD0, CHR 0xB5, CHR 0xD0, CHR 0xB9, CHR 0xD1, CHR 0x87, CHR 0xD0,
      CHR 0xB0, CHR 0xD1, CHR 0x81]"

definition ru_vremeni :: string where
  "ru_vremeni =
     [CHR 0xD0, CHR 0xB2, CHR 0xD1, CHR 0x80, CHR 0xD0, CHR 0xB5, CHR 0xD0, CHR 0xBC, CHR 0xD0,
      CHR 0xB5, CHR 0xD0, CHR 0xBD, CHR 0xD0, CHR 0xB8]"

definition ru_kotoryj :: string where
  "ru_kotoryj =
     [CHR 0xD0, CHR 0xBA, CHR 0xD0, CHR 0xBE, CHR 0xD1, CHR 0x82, CHR 0xD0, CHR 0xBE, CHR 0xD1,
      CHR 0x80, CHR 0xD1, CHR 0x8B, CHR 0xD0, CHR 0xB9]"

definition ru_chas :: string where
  "ru_chas =
     [CHR 0xD1, CHR 0x87, CHR 0xD0, CHR 0xB0, CHR 0xD1, CHR 0x81]"

definition ru_pogod :: string where
  "ru_pogod =
     [CHR 0xD0, CHR 0xBF, CHR 0xD0, CHR 0xBE, CHR 0xD0, CHR 0xB3, CHR 0xD0, CHR 0xBE, CHR 0xD0,
      CHR 0xB4]"

definition ru_a :: string where
  "ru_a =
     [CHR 0xD0, CHR 0xB0]"

definition ru_u :: string where
  "ru_u =
     [CHR 0xD1, CHR 0x83]"

definition ru_y :: string where
  "ru_y =
     [CHR 0xD1, CHR 0x8B]"

definition ru_temperatur :: string where
  "ru_temperatur =
     [CHR 0xD1, CHR 0x82, CHR 0xD0, CHR 0xB5, CHR 0xD0, CHR 0xBC, CHR 0xD0, CHR 0xBF, CHR 0xD0,
      CHR 0xB5, CHR 0xD1, CHR 0x80, CHR 0xD0, CHR 0xB0, CHR 0xD1, CHR 0x82, CHR 0xD1, CHR 0x83,
      CHR 0xD1, CHR 0x80]"

definition ru_kakaya :: string where
  "ru_kakaya =
     [CHR 0xD0, CHR 0xBA, CHR 0xD0, CHR 0xB0, CHR 0xD0, CHR 0xBA, CHR 0xD0, CHR 0xB0, CHR 0xD1,
      CHR 0x8F]"

definition ru_pogoda :: string where
  "ru_pogoda =
     [CHR 0xD0, CHR 0xBF, CHR 0xD0, CHR 0xBE, CHR 0xD0, CHR 0xB3, CHR 0xD0, CHR 0xBE, CHR 0xD0,
      CHR 0xB4, CHR 0xD0, CHR 0xB0]"

definition ru_kurs :: string where
  "ru_kurs =
     [CHR 0xD0, CHR 0xBA, CHR 0xD1, CHR 0x83, CHR 0xD1, CHR 0x80, CHR 0xD1, CHR 0x81]"

definition ru_stoit :: string where
  "ru_stoit =
     [CHR 0xD1, CHR 0x81, CHR 0xD1, CHR 0x82, CHR 0xD0, CHR 0xBE, CHR 0xD0, CHR 0xB8, CHR 0xD1,
      CHR 0x82]"

definition ru_budet :: string where
  "ru_budet =
     [CHR 0xD0, CHR 0xB1, CHR 0xD1, CHR 0x83, CHR 0xD0, CHR 0xB4, CHR 0xD0, CHR 0xB5, CHR 0xD1,
      CHR 0x82]"

definition ru_dollar :: string where
  "ru_dollar =
     [CHR 0xD0, CHR 0xB4, CHR 0xD0, CHR 0xBE, CHR 0xD0, CHR 0xBB, CHR 0xD0, CHR 0xBB, CHR 0xD0,
      CHR 0xB0, CHR 0xD1, CHR 0x80]"

definition ru_evro :: string where
  "ru_evro =
     [CHR 0xD0, CHR 0xB5, CHR 0xD0, CHR 0xB2, CHR 0xD1, CHR 0x80, CHR 0xD0, CHR 0xBE]"

definition ru_rubl :: string where
  "ru_rubl =
     [CHR 0xD1, CHR 0x80, CHR 0xD1, CHR 0x83, CHR 0xD0, CHR 0xB1, CHR 0xD0, CHR 0xBB]"

definition ru_novost :: string where
  "ru_novost =
     [CHR 0xD0, CHR 0xBD, CHR 0xD0, CHR 0xBE, CHR 0xD0, CHR 0xB2, CHR 0xD0, CHR 0xBE, CHR 0xD1,
      CHR 0x81, CHR 0xD1, CHR 0x82]"

definition ru_i :: string where
  "ru_i =
     [CHR 0xD0, CHR 0xB8]"

definition ru_q :: string where
  "ru_q =
     [CHR 0xD1, CHR 0x8C]"

definition ru_ya :: string where
  "ru_ya =
     [CHR 0xD1, CHR 0x8F]"

definition ru_chto :: string where
  "ru_chto =
     [CHR 0xD1, CHR 0x87, CHR 0xD1, CHR 0x82, CHR 0xD0, CHR 0xBE]"

definition ru_novogo :: string where
  "ru_novogo =
     [CHR 0xD0, CHR 0xBD, CHR 0xD0, CHR 0xBE, CHR 0xD0, CHR 0xB2, CHR 0xD0, CHR 0xBE, CHR 0xD0,
      CHR 0xB3, CHR 0xD0, CHR 0xBE]"

definition ru_proiskhodit :: string where
  "ru_proiskhodit =
     [CHR 0xD0, CHR 0xBF, CHR 0xD1, CHR 0x80, CHR 0xD0, CHR 0xBE, CHR 0xD0, CHR 0xB8, CHR 0xD1,
      CHR 0x81, CHR 0xD1, CHR 0x85, CHR 0xD0, CHR 0xBE, CHR 0xD0, CHR 0xB4, CHR 0xD0, CHR 0xB8,
      CHR 0xD1, CHR 0x82]"

definition ru_sluchilosq :: string where
  "ru_sluchilosq =
     [CHR 0xD1, CHR 0x81, CHR 0xD0, CHR 0xBB, CHR 0xD1, CHR 0x83, CHR 0xD1, CHR 0x87, CHR 0xD0,
      CHR 0xB8, CHR 0xD0, CHR 0xBB, CHR 0xD0, CHR 0xBE, CHR 0xD1, CHR 0x81, CHR 0xD1, CHR 0x8C]"

definition ru_pXXslednie :: string where
  "ru_pXXslednie =
     [CHR 0xD0, CHR 0xBF, CHR 0xEF, CHR 0xBF, CHR 0xBD, CHR 0xEF, CHR 0xBF, CHR 0xBD, CHR 0xD1,
      CHR 0x81, CHR 0xD0, CHR 0xBB, CHR 0xD0, CHR 0xB5, CHR 0xD0, CHR 0xB4, CHR 0xD0, CHR 0xBD,
      CHR 0xD0, CHR 0xB8, CHR 0xD0, CHR 0xB5]"

definition ru_sobytiya :: string where
  "ru_sobytiya =
     [CHR 0xD1, CHR 0x81, CHR 0xD0, CHR 0xBE, CHR 0xD0, CHR 0xB1, CHR 0xD1, CHR 0x8B, CHR 0xD1,
      CHR 0x82, CHR 0xD0, CHR 0xB8, CHR 0xD1, CHR 0x8F]"

definition ru_novosti :: string where
  "ru_novosti =
     [CHR 0xD0, CHR 0xBD, CHR 0xD0, CHR 0xBE, CHR 0xD0, CHR 0xB2, CHR 0xD0, CHR 0xBE, CHR 0xD1,
      CHR 0x81, CHR 0xD1, CHR 0x82, CHR 0xD0, CHR 0xB8]"

definition ru_programmirovanie :: string where
  "ru_programmirovanie =
     [CHR 0xD0, CHR 0xBF, CHR 0xD1, CHR 0x80, CHR 0xD0, CHR 0xBE, CHR 0xD0, CHR 0xB3, CHR 0xD1,
      CHR 0x80, CHR 0xD0, CHR 0xB0, CHR 0xD0, CHR 0xBC, CHR 0xD0, CHR 0xBC, CHR 0xD0, CHR 0xB8,
      CHR 0xD1, CHR 0x80, CHR 0xD0, CHR 0xBE, CHR 0xD0, CHR 0xB2, CHR 0xD0, CHR 0xB0, CHR 0xD0,
      CHR 0xBD, CHR 0xD0, CHR 0xB8, CHR 0xD0, CHR 0xB5]"

definition ru_oshibka :: string where
  "ru_oshibka =
     [CHR 0xD0, CHR 0xBE, CHR 0xD1, CHR 0x88, CHR 0xD0, CHR 0xB8, CHR 0xD0, CHR 0xB1, CHR 0xD0,
      CHR 0xBA, CHR 0xD0, CHR 0xB0]"

definition ru_kod :: string where
  "ru_kod =
     [CHR 0xD0, CHR 0xBA, CHR 0xD0, CHR 0xBE, CHR 0xD0, CHR 0xB4]"

text \<open>
  The pattern groups, in the order of the source. The comments give each pattern with
  the white space class as <s> and the digit class as <d>.
\<close>

definition timePatterns :: "regex list" where
  "timePatterns =
     [\<comment> \<open>kakoe?<s>*(segodnya<s>*)?(chislo|data|vremya|denq)\<close>
      seq [lit ru_kako, opt (lit ru_e), Star (Atom WhiteSpace),
           opt (seq [lit ru_segodnya, Star (Atom WhiteSpace)]),
           alts [lit ru_chislo, lit ru_data, lit ru_vremya, lit ru_denq]],
      \<comment> \<open>skolqko<s>*(sejchas<s>*)?(vremeni|vremya)\<close>
      seq [lit ru_skolqko, Star (Atom WhiteSpace),
           opt (seq [lit ru_sejchas, Star (Atom WhiteSpace)]),
           alts [lit ru_vremeni, lit ru_vremya]],
      \<comment> \<open>kotoryj<s>+chas\<close>
      seq [lit ru_kotoryj, plus (Atom WhiteSpace), lit ru_chas],
      \<comment> \<open>what<s>*(is<s>*the<s>*)?(time|date|day)\<close>
      seq [lit ''what'', Star (Atom WhiteSpace),
           opt (seq [lit ''is'', Star (Atom WhiteSpace), lit ''the'', Star (Atom WhiteSpace)]),
           alts [lit ''time'', lit ''date'', lit ''day'']],
      \<comment> \<open>current<s>*(time|date)\<close>
      seq [lit ''current'', Star (Atom WhiteSpace), alts [lit ''time'', lit ''date'']]]"

definition weatherPatterns :: "regex list" where
  "weatherPatterns =
     [\<comment> \<open>pogod[aeuy]\<close>
      seq [lit ru_pogod, alts [lit ru_a, lit ru_e, lit ru_u, lit ru_y]],
      \<comment> \<open>weather\<close>
      lit ''weather'',
      \<comment> \<open>temperatur[aeuy]\<close>
      seq [lit ru_temperatur, alts [lit ru_a, lit ru_e, lit ru_u, lit ru_y]],
      \<comment> \<open>temperature\<close>
      lit ''temperature'',
      \<comment> \<open>kakaya<s>+pogoda\<close>
      seq [lit ru_kakaya, plus (Atom WhiteSpace), lit ru_pogoda]]"

definition currencyPatterns :: "regex list" where
  "currencyPatterns =
     [\<comment> \<open>kurs\<close>
      lit ru_kurs,
      \<comment> \<open>exchange<s>*rate\<close>
      seq [lit ''exchange'', Star (Atom WhiteSpace), lit ''rate''],
      \<comment> \<open>skolqko<s>+(stoit|budet).*?(dollar|evro|rubl|bitcoin|btc|eth)\<close>
      seq [lit ru_skolqko, plus (Atom WhiteSpace), alts [lit ru_stoit, lit ru_budet],
           Star (Atom AnyChar),
           alts [lit ru_dollar, lit ru_evro, lit ru_rubl, lit ''bitcoin'', lit ''btc'',
                 lit ''eth'']],
      \<comment> \<open>convert.*?(usd|eur|rub|btc)\<close>
      seq [lit ''convert'', Star (Atom AnyChar),
           alts [lit ''usd'', lit ''eur'', lit ''rub'', lit ''btc'']],
      \<comment> \<open>(<d>+)<s>*(usd|eur|rub|dollar|euro|rubl)\<close>
      seq [plus (Atom DecimalDigit), Star (Atom WhiteSpace),
           alts [lit ''usd'', lit ''eur'', lit ''rub'', lit ''dollar'', lit ''euro'',
                 lit ru_rubl]]]"

definition newsPatterns :: "regex list" where
  "newsPatterns =
     [\<comment> \<open>novost[iqya]\<close>
      seq [lit ru_novost, alts [lit ru_i, lit ru_q, lit ru_ya]],
      \<comment> \<open>news\<close>
      lit ''news'',
      \<comment> \<open>chto<s>+(novogo|proiskhodit|sluchilosq)\<close>
      seq [lit ru_chto, plus (Atom WhiteSpace),
           alts [lit ru_novogo, lit ru_proiskhodit, lit ru_sluchilosq]],
      \<comment> \<open>pXXslednie<s>+(sobytiya|novosti)\<close>
      seq [lit ru_pXXslednie, plus (Atom WhiteSpace), alts [lit ru_sobytiya, lit ru_novosti]]]"

definition detectQueryIntent :: "string \<Rightarrow> string" where
  "detectQueryIntent query =
     (let lowerQuery = toLowerCase query in
      if list_ex (\<lambda>p. test p lowerQuery) timePatterns then ''time''
      else if list_ex (\<lambda>p. test p lowerQuery) weatherPatterns then ''weather''
      else if list_ex (\<lambda>p. test p lowerQuery) currencyPatterns then ''currency''
      else if list_ex (\<lambda>p. test p lowerQuery) newsPatterns then ''news''
      else ''search'')"

section \<open>Fetching through the proxy chain\<close>

text \<open>
  What a request comes to: the platform's \<open>fetch\<close> rejects (network failure, timeout),
  or answers with a status that is not a success, or answers successfully with a body
  that cannot be read, or with a body that can.
\<close>

datatype 'a reply = Rejected | NotOk nat | Unreadable | Ok 'a

text \<open>
  \<open>encodeURIComponent\<close> on UTF-8 bytes: letters, digits and \<open>- _ . ! ~ * ' ( )\<close> stay,
  every other byte becomes \<open>%XX\<close>.
\<close>

definition hex_digit :: "nat \<Rightarrow> char" where
  "hex_digit d = (if d < 10 then char_of (48 + d) else char_of (55 + d))"

definition is_unreserved :: "char \<Rightarrow> bool" where
  "is_unreserved c =
     (let n = (of_char c :: nat) in
      (48 \<le> n \<and> n \<le> 57) \<or> (65 \<le> n \<and> n \<le> 90) \<or> (97 \<le> n \<and> n \<le> 122)
      \<or> c \<in> set [CHR ''-'', CHR ''_'', CHR ''.'', CHR ''!'', CHR ''~'', CHR ''*'', CHR 0x27,
                   CHR ''('', CHR '')''])"

definition encodeURIComponent :: "string \<Rightarrow> string" where
  "encodeURIComponent s =
     concat (map (\<lambda>c. if is_unreserved c then [c]
                        else [CHR ''%'', hex_digit ((of_char c :: nat) div 16),
                              hex_digit ((of_char c :: nat) mod 16)]) s)"

text \<open>The proxy list of \<open>fetchUrlContent\<close> and of the MCP server.\<close>

definition corsProxies :: "(string \<Rightarrow> string) list" where
  "corsProxies =
     [\<lambda>u. ''https://api.allorigins.win/raw?url='' @ encodeURIComponent u,
      \<lambda>u. ''https://corsproxy.io/?'' @ encodeURIComponent u,
      \<lambda>u. ''https://api.codetabs.com/v1/proxy?quest='' @ encodeURIComponent u]"

text \<open>
  \<open>fetchUrlContent\<close> of the web client. Every function of this section returns, next
  to its result, the URLs it has requested, in the order of the requests.
  \<open>extractTextFromHtml\<close> and \<open>extractTitle\<close> are the HTML scrapers of the source.
\<close>

datatype url_content =
    Fetched string string string
  | NotFetched string string

fun fetchUrlContent_loop ::
  "(string \<Rightarrow> string reply) \<Rightarrow> (string \<Rightarrow> string \<Rightarrow> string) \<Rightarrow> (string \<Rightarrow> string) \<Rightarrow>
   string \<Rightarrow> (string \<Rightarrow> string) list \<Rightarrow> string list \<times> url_content" where
  "fetchUrlContent_loop fetch extractTextFromHtml extractTitle url [] =
     ([], NotFetched url ''Failed to fetch URL content through available proxies'')"
| "fetchUrlContent_loop fetch extractTextFromHtml extractTitle url (getProxyUrl # rest) =
     (let proxyUrl = getProxyUrl url in
      case fetch proxyUrl of
        Ok html \<Rightarrow> ([proxyUrl], Fetched url (extractTextFromHtml html url) (extractTitle html))
      | _ \<Rightarrow>
          (let (requested, result) =
                 fetchUrlContent_loop fetch extractTextFromHtml extractTitle url rest
           in (proxyUrl # requested, result)))"

definition fetchUrlContent ::
  "(string \<Rightarrow> string reply) \<Rightarrow> (string \<Rightarrow> string \<Rightarrow> string) \<Rightarrow> (string \<Rightarrow> string) \<Rightarrow>
   string \<Rightarrow> string list \<times> url_content" where
  "fetchUrlContent fetch extractTextFromHtml extractTitle url =
     fetchUrlContent_loop fetch extractTextFromHtml extractTitle url corsProxies"

text \<open>
  \<open>fetch_url\<close> of the MCP server. Its client throws on every reply that is not a
  success. \<open>render\<close> is the formatting of the response that was obtained, \<open>Inl\<close> the
  message of an error it throws.
\<close>

record tool_reply =
  reply_text :: string
  isError :: bool

fun fetch_url_proxies ::
  "(string \<Rightarrow> 'r reply) \<Rightarrow> string \<Rightarrow> (string \<Rightarrow> string) list \<Rightarrow> string list \<times> 'r option" where
  "fetch_url_proxies get url [] = ([], None)"
| "fetch_url_proxies get url (getProxyUrl # rest) =
     (let proxyUrl = getProxyUrl url in
      case get proxyUrl of
        Ok response \<Rightarrow> ([proxyUrl], Some response)
      | _ \<Rightarrow>
          (let (requested, response) = fetch_url_proxies get url rest
           in (proxyUrl # requested, response)))"

definition fetch_url_response ::
  "(string \<Rightarrow> 'r reply) \<Rightarrow> string \<Rightarrow> string list \<times> 'r option" where
  "fetch_url_response get url =
     (case get url of
        Ok response \<Rightarrow> ([url], Some response)
      | _ \<Rightarrow>
          (let (requested, response) = fetch_url_proxies get url corsProxies
           in (url # requested, response)))"

definition fetch_url ::
  "(string \<Rightarrow> 'r reply) \<Rightarrow> ('r \<Rightarrow> bool \<Rightarrow> string + string) \<Rightarrow> string \<Rightarrow> bool \<Rightarrow>
   string list \<times> tool_reply" where
  \<open>fetch_url get render url extract_text =
     (let (requested, response) = fetch_url_response get url;
          outcome =
            (case response of
               None \<Rightarrow> Inl ''Failed to fetch URL through all available methods''
             | Some r \<Rightarrow> render r extract_text)
      in (requested,
          case outcome of
            Inl message \<Rightarrow>
              \<lparr>reply_text = ''Error fetching URL "'' @ url @ ''": '' @ message, isError = True\<rparr>
          | Inr t \<Rightarrow> \<lparr>reply_text = t, isError = False\<rparr>))\<close>

text \<open>The requests of the chain for a target, in order, and the successful replies.\<close>

definition proxy_chain :: "string \<Rightarrow> string list" where
  "proxy_chain url = map (\<lambda>getProxyUrl. getProxyUrl url) corsProxies"


fun is_ok :: "'a reply \<Rightarrow> bool" where
  "is_ok (Ok x) = True"
| "is_ok r = False"


section \<open>The search aggregators\<close>

record search_result =
  title :: string
  snippet :: string
  url :: string
  source :: string

text \<open>
  The bodies of the public sources, with the fields that the aggregators read. A field
  that is absent or \<open>null\<close> is the empty string, the number 0 or the empty list.
\<close>

record topic =
  Text :: string
  FirstURL :: string

record ddg_data =
  Abstract :: string
  Heading :: string
  AbstractURL :: string
  AbstractSource :: string
  Answer :: string
  RelatedTopics :: "topic list"

record wiki_result =
  wiki_title :: string
  wiki_snippet :: string

record wiki_summary =
  summary_extract :: string
  summary_title :: string
  desktop_page :: string

record hn_hit =
  hn_title :: string
  points :: nat
  num_comments :: nat
  author :: string
  created_at :: string
  hn_url :: string
  objectID :: string

record so_item =
  so_title :: string
  score :: int
  answer_count :: nat
  view_count :: nat
  link :: string

record reddit_post =
  post_title :: string
  subreddit :: string
  post_score :: int
  post_comments :: nat
  permalink :: string

record result_elem =
  result_a_text :: string
  result_a_href :: string
  result_snippet_text :: string

text \<open>
  The network and the platform, as the aggregators see them: the reply to a request for
  each URL, by the kind of body the source sends, and the library functions that are
  not modelled here. \<open>parseSearchResults\<close> is the HTML scraper of the web client
  (\<open>None\<close> when it throws), \<open>cheerio_results\<close> gives the \<open>.result\<close> elements of a page
  with the texts that the MCP server reads from each, \<open>hostname\<close> is
  \<open>new URL(u).hostname\<close> (\<open>None\<close> when the URL is invalid and the constructor throws).
\<close>

record world =
  fetch_text :: "string \<Rightarrow> string reply"
  fetch_ddg :: "string \<Rightarrow> ddg_data reply"
  fetch_wiki :: "string \<Rightarrow> wiki_result list reply"
  fetch_summary :: "string \<Rightarrow> wiki_summary reply"
  fetch_hn :: "string \<Rightarrow> hn_hit list reply"
  fetch_so :: "string \<Rightarrow> so_item list reply"
  fetch_reddit :: "string \<Rightarrow> reddit_post list reply"
  parseSearchResults :: "string \<Rightarrow> search_result list option"
  cheerio_results :: "string \<Rightarrow> result_elem list"
  hostname :: "string \<Rightarrow> string option"
  toLocaleDateString :: "string \<Rightarrow> string"

text \<open>
  A block of statements leaves the list of results it has built and, when an exception
  escaped it, that exception. \<open>try_catch\<close> is a \<open>try\<close> whose handler only logs.
\<close>

type_synonym block = "search_result list \<times> error option"

definition try_catch :: "block \<Rightarrow> search_result list" where
  "try_catch b = fst b"

text \<open>The exception that a reply other than a readable success raises.\<close>

fun reply_error :: "'a reply \<Rightarrow> error" where
  "reply_error Unreadable = SyntaxError"
| "reply_error r = NetworkError"

text \<open>
  \<open>s.length\<close>: the number of UTF-16 code units of the text, counted on its UTF-8 bytes.
  A byte that starts a character of one, two or three bytes stands for one unit, one that
  starts a character of four bytes for two, and a continuation byte for none.
\<close>

fun js_length :: "string \<Rightarrow> nat" where
  "js_length [] = 0"
| "js_length (c # cs) =
     (let b = (of_char c :: nat)
      in (if b < 0x80 then 1 else if b < 0xC0 then 0 else if b < 0xF0 then 1 else 2))
       + js_length cs"

definition show_int :: "int \<Rightarrow> string" where
  "show_int i = (if i < 0 then CHR ''-'' # show_nat (nat (- i)) else show_nat (nat i))"

definition or_string :: "string \<Rightarrow> string \<Rightarrow> string" where
  "or_string s d = (if s \<noteq> [] then s else d)"

function replaceAll :: "string \<Rightarrow> string \<Rightarrow> string \<Rightarrow> string" where
  "replaceAll pat rep s =
     (if s = [] \<or> pat = [] then s
      else if startsWith s pat then rep @ replaceAll pat rep (drop (length pat) s)
      else hd s # replaceAll pat rep (tl s))"
  by pat_completeness auto
termination
  by (relation "measure (\<lambda>(pat, rep, s). length s)") auto

declare replaceAll.simps [simp del]

text \<open>Removing every match of \<open><[^>]+>\<close>.\<close>

function stripTags :: "string \<Rightarrow> string" where
  "stripTags s =
     (case s of
        [] \<Rightarrow> []
      | c # cs \<Rightarrow>
          if c = CHR ''<'' \<and> takeWhile (\<lambda>x. x \<noteq> CHR ''>'') cs \<noteq> []
             \<and> dropWhile (\<lambda>x. x \<noteq> CHR ''>'') cs \<noteq> []
          then stripTags (tl (dropWhile (\<lambda>x. x \<noteq> CHR ''>'') cs))
          else c # stripTags cs)"
  by pat_completeness auto
termination
proof (relation "measure length", goal_cases)
  case 1
  then show ?case by simp
next
  case (2 s c cs)
  have "length (dropWhile (\<lambda>x. x \<noteq> CHR ''>'') cs) \<le> length cs" by (rule length_dropWhile_le)
  then show ?case using 2 by (cases "dropWhile (\<lambda>x. x \<noteq> CHR ''>'') cs") auto
next
  case 3
  then show ?case by simp
qed

declare stripTags.simps [simp del]

subsection \<open>web_search of the MCP server\<close>

text \<open>
  The requests of the server go through axios, which throws on every reply that is not
  a success. \<open>max_results\<close> is a number.
\<close>

fun ddg_topics_loop :: "world \<Rightarrow> topic list \<Rightarrow> search_result list \<Rightarrow> block" where
  "ddg_topics_loop w [] results = (results, None)"
| "ddg_topics_loop w (t # ts) results =
     (if Text t \<noteq> [] then
        (if FirstURL t \<noteq> [] then
           (case hostname w (FirstURL t) of
              None \<Rightarrow> (results, Some TypeError)
            | Some h \<Rightarrow>
                ddg_topics_loop w ts
                  (results @ [\<lparr>title = h, snippet = Text t, url = FirstURL t,
                                source = ''DuckDuckGo''\<rparr>]))
         else ddg_topics_loop w ts
                (results @ [\<lparr>title = ''Related'', snippet = Text t, url = [],
                              source = ''DuckDuckGo''\<rparr>]))
      else ddg_topics_loop w ts results)"

definition ddg_block :: "world \<Rightarrow> string \<Rightarrow> search_result list \<Rightarrow> block" where
  "ddg_block w query results =
     (case fetch_ddg w (''https://api.duckduckgo.com/?q='' @ encodeURIComponent query
                          @ ''&format=json&no_html=1&skip_disambig=1'') of
        Ok data \<Rightarrow>
          (let results1 =
                 (if Abstract data \<noteq> []
                  then results @ [\<lparr>title = or_string (Heading data) ''DuckDuckGo Result'',
                                    snippet = Abstract data,
                                    url = or_string (AbstractURL data) [],
                                    source = or_string (AbstractSource data) ''DuckDuckGo''\<rparr>]
                  else results);
               results2 =
                 (if Answer data \<noteq> []
                  then results1 @ [\<lparr>title = ''Direct Answer'', snippet = Answer data, url = [],
                                     source = ''DuckDuckGo''\<rparr>]
                  else results1)
           in ddg_topics_loop w (take 5 (RelatedTopics data)) results2)
      | r \<Rightarrow> (results, Some (reply_error r)))"

definition wikipedia_block :: "world \<Rightarrow> string \<Rightarrow> search_result list \<Rightarrow> block" where
  "wikipedia_block w query results =
     (case fetch_summary w (''https://en.wikipedia.org/api/rest_v1/page/summary/''
                              @ encodeURIComponent query) of
        Ok page \<Rightarrow>
          (if summary_extract page \<noteq> [] \<and> js_length (summary_extract page) > 50
           then (results @ [\<lparr>title = or_string (summary_title page) query,
                             snippet = summary_extract page,
                             url = or_string (desktop_page page)
                                     (''https://en.wikipedia.org/wiki/'' @ encodeURIComponent query),
                             source = ''Wikipedia''\<rparr>], None)
           else (results, None))
      | r \<Rightarrow> (results, Some (reply_error r)))"

text \<open>The callback of \<open>$(".result").each\<close>, which stops the iteration by returning false.\<close>

fun each_result :: "rat \<Rightarrow> result_elem list \<Rightarrow> search_result list \<Rightarrow> search_result list" where
  "each_result max_results [] results = results"
| "each_result max_results (elem # elems) results =
     (if of_nat (length results) \<ge> max_results then results
      else if result_a_text elem \<noteq> [] \<and> result_snippet_text elem \<noteq> [] then
        (let isDuplicate =
               list_ex (\<lambda>r. url r = result_a_href elem \<or> snippet r = result_snippet_text elem)
                 results
         in if \<not> isDuplicate
            then each_result max_results elems
                   (results @ [\<lparr>title = result_a_text elem, snippet = result_snippet_text elem,
                                 url = result_a_href elem, source = ''Web''\<rparr>])
            else each_result max_results elems results)
      else each_result max_results elems results)"

fun scrape_loop ::
  "world \<Rightarrow> string \<Rightarrow> rat \<Rightarrow> (string \<Rightarrow> string) list \<Rightarrow> search_result list \<Rightarrow> search_result list" where
  "scrape_loop w query max_results [] results = results"
| "scrape_loop w query max_results (getProxyUrl # rest) results =
     (case fetch_text w (getProxyUrl (''https://html.duckduckgo.com/html/?q=''
                                        @ encodeURIComponent query)) of
        Ok html \<Rightarrow>
          (let results1 = each_result max_results (cheerio_results w html) results in
           if of_nat (length results1) \<ge> max_results then results1
           else scrape_loop w query max_results rest results1)
      | _ \<Rightarrow> scrape_loop w query max_results rest results)"

definition techKeywords :: "string list" where
  "techKeywords =
     [''programming'', ''software'', ''code'', ''developer'', ''tech'', ''api'', ''javascript'',
      ''python'', ''react'', ''ai'', ''machine learning'', ''startup'']"

fun hn_loop :: "rat \<Rightarrow> hn_hit list \<Rightarrow> search_result list \<Rightarrow> search_result list" where
  "hn_loop max_results [] results = results"
| "hn_loop max_results (hit # hits) results =
     (if of_nat (length results) \<ge> max_results then results
      else hn_loop max_results hits
             (results @
                [\<lparr>title = or_string (hn_title hit) ''Hacker News'',
                  snippet = show_nat (points hit) @ '' points | '' @ show_nat (num_comments hit)
                    @ '' comments | '' @ or_string (author hit) ''unknown'',
                  url = or_string (hn_url hit)
                          (''https://news.ycombinator.com/item?id='' @ objectID hit),
                  source = ''Hacker News''\<rparr>]))"

definition hn_block :: "world \<Rightarrow> string \<Rightarrow> rat \<Rightarrow> search_result list \<Rightarrow> block" where
  "hn_block w query max_results results =
     (case fetch_hn w (''https://hn.algolia.com/api/v1/search?query='' @ encodeURIComponent query
                         @ ''&tags=story&hitsPerPage=3'') of
        Ok hits \<Rightarrow> (hn_loop max_results hits results, None)
      | r \<Rightarrow> (results, Some (reply_error r)))"

text \<open>The array \<open>results\<close> when the sources have been asked.\<close>

definition quick_results :: "world \<Rightarrow> string \<Rightarrow> search_result list" where
  "quick_results w query =
     try_catch (wikipedia_block w query (try_catch (ddg_block w query [])))"

definition scraped_results :: "world \<Rightarrow> string \<Rightarrow> rat \<Rightarrow> search_result list" where
  "scraped_results w query max_results =
     (let results = quick_results w query in
      if of_nat (length results) < max_results
      then scrape_loop w query max_results corsProxies results
      else results)"

definition web_search_results :: "world \<Rightarrow> string \<Rightarrow> rat \<Rightarrow> search_result list" where
  "web_search_results w query max_results =
     (let results = scraped_results w query max_results in
      if list_ex (\<lambda>kw. str_includes (toLowerCase query) kw) techKeywords
      then try_catch (hn_block w query max_results results)
      else results)"

text \<open>\<open>results.slice(0, max_results)\<close>, the results that are listed in the reply.\<close>

definition slice0 :: "'a list \<Rightarrow> rat \<Rightarrow> 'a list" where
  "slice0 xs n =
     (if n \<ge> 0 then take (nat \<lfloor>n\<rfloor>) xs
      else take (nat (int (length xs) + \<lceil>n\<rceil>)) xs)"

definition listed_results :: "world \<Rightarrow> string \<Rightarrow> rat \<Rightarrow> search_result list" where
  "listed_results w query max_results = slice0 (web_search_results w query max_results) max_results"

fun join :: "string \<Rightarrow> string list \<Rightarrow> string" where
  "join sep [] = []"
| "join sep [x] = x"
| "join sep (x # y # ys) = x @ sep @ join sep (y # ys)"

definition format_result :: "nat \<Rightarrow> search_result \<Rightarrow> string" where
  "format_result i r =
     show_nat (i + 1) @ ''. **'' @ title r @ ''**\<newline>   Source: '' @ source r
       @ ''\<newline>   URL: '' @ or_string (url r) ''N/A'' @ ''\<newline>   '' @ snippet r"

text \<open>The handler of the tool, called with \<open>max_results\<close> or its default.\<close>

definition web_search :: "world \<Rightarrow> string \<Rightarrow> rat \<Rightarrow> tool_reply" where
  \<open>web_search w query max_results =
     (let results = web_search_results w query max_results in
      if length results = 0
      then \<lparr>reply_text = ''No search results found for: "'' @ query
               @ ''". Try rephrasing your query or using different keywords.'',
             isError = False\<rparr>
      else
        (let listed = listed_results w query max_results;
             formattedResults =
               join ''\<newline>\<newline>'' (map (\<lambda>(i, r). format_result i r) (zip [0 ..< length listed] listed))
         in \<lparr>reply_text = ''## Web Search Results for: "'' @ query @ ''"\<newline>\<newline>Found ''
                  @ show_nat (length results) @ '' results:\<newline>\<newline>'' @ formattedResults,
               isError = False\<rparr>))\<close>

text \<open>
  The call of the tool. Its schema declares \<open>max_results\<close> as an optional number from 1
  to 20: the server rejects a call whose arguments do not fit the schema, and does not
  run the handler.
\<close>

record web_search_args =
  arg_query :: string
  arg_max_results :: "rat option"

datatype call_error = InvalidParams

definition web_search_tool :: "world \<Rightarrow> web_search_args \<Rightarrow> call_error + tool_reply" where
  "web_search_tool w args =
     (case arg_max_results args of
        None \<Rightarrow> Inr (web_search w (arg_query args) 10)
      | Some m \<Rightarrow>
          if 1 \<le> m \<and> m \<le> 20 then Inr (web_search w (arg_query args) m)
          else Inl InvalidParams)"

subsection \<open>performWebSearch of the web client\<close>

definition searchProxies :: "(string \<Rightarrow> string) list" where
  "searchProxies = corsProxies @ [\<lambda>u. ''https://thingproxy.freeboard.io/fetch/'' @ u]"

fun fetchWithProxies_loop :: "world \<Rightarrow> string \<Rightarrow> (string \<Rightarrow> string) list \<Rightarrow> string option" where
  "fetchWithProxies_loop w u [] = None"
| "fetchWithProxies_loop w u (getProxyUrl # rest) =
     (case fetch_text w (getProxyUrl u) of
        Ok t \<Rightarrow> Some t
      | _ \<Rightarrow> fetchWithProxies_loop w u rest)"

definition fetchWithProxies :: "world \<Rightarrow> string \<Rightarrow> string option" where
  "fetchWithProxies w u = fetchWithProxies_loop w u searchProxies"

text \<open>Source 1: the scraped DuckDuckGo page.\<close>

definition push_scraped :: "search_result list \<Rightarrow> search_result \<Rightarrow> search_result list" where
  "push_scraped allResults result =
     (if \<not> list_ex (\<lambda>r. url r = url result) allResults then allResults @ [result]
      else allResults)"

definition source_ddg_html :: "world \<Rightarrow> string \<Rightarrow> search_result list \<Rightarrow> block" where
  "source_ddg_html w query allResults =
     (case fetchWithProxies w (''https://html.duckduckgo.com/html/?q='' @ encodeURIComponent query) of
        None \<Rightarrow> (allResults, None)
      | Some html \<Rightarrow>
          if html = [] then (allResults, None)
          else (case parseSearchResults w html of
                  None \<Rightarrow> (allResults, Some TypeError)
                | Some scrapedResults \<Rightarrow> (foldl push_scraped allResults scrapedResults, None)))"

text \<open>Source 2: the DuckDuckGo instant answer.\<close>

fun relatedTopics_loop :: "world \<Rightarrow> topic list \<Rightarrow> search_result list \<Rightarrow> block" where
  "relatedTopics_loop w [] allResults = (allResults, None)"
| "relatedTopics_loop w (t # ts) allResults =
     (if Text t \<noteq> [] \<and> \<not> list_ex (\<lambda>r. snippet r = Text t) allResults then
        (if FirstURL t \<noteq> [] then
           (case hostname w (FirstURL t) of
              None \<Rightarrow> (allResults, Some TypeError)
            | Some h \<Rightarrow>
                relatedTopics_loop w ts
                  (allResults @ [\<lparr>title = h, snippet = Text t, url = FirstURL t,
                                   source = ''DuckDuckGo''\<rparr>]))
         else relatedTopics_loop w ts
                (allResults @ [\<lparr>title = ''Related'', snippet = Text t, url = [],
                                 source = ''DuckDuckGo''\<rparr>]))
      else relatedTopics_loop w ts allResults)"

definition source_ddg_api :: "world \<Rightarrow> string \<Rightarrow> search_result list \<Rightarrow> block" where
  "source_ddg_api w query allResults =
     (case fetch_ddg w (''https://api.duckduckgo.com/?q='' @ encodeURIComponent query
                          @ ''&format=json&no_html=1&skip_disambig=1'') of
        Ok data \<Rightarrow>
          (let all1 =
                 (if Abstract data \<noteq> [] \<and> js_length (Abstract data) > 30
                  then \<lparr>title = or_string (Heading data) ''Quick Answer'',
                         snippet = Abstract data,
                         url = or_string (AbstractURL data) [],
                         source = or_string (AbstractSource data) ''DuckDuckGo''\<rparr> # allResults
                  else allResults);
               all2 =
                 (if Answer data \<noteq> []
                  then \<lparr>title = ''Direct Answer'', snippet = Answer data, url = [],
                         source = ''DuckDuckGo''\<rparr> # all1
                  else all1)
           in relatedTopics_loop w (take 3 (RelatedTopics data)) all2)
      | NotOk st \<Rightarrow> (allResults, None)
      | r \<Rightarrow> (allResults, Some (reply_error r)))"

text \<open>Sources 3 and 4: the English and the Russian Wikipedia.\<close>

definition push_wiki ::
  "string \<Rightarrow> string \<Rightarrow> search_result list \<Rightarrow> wiki_result \<Rightarrow> search_result list" where
  "push_wiki base label allResults result =
     (let snippet = or_string (stripTags (wiki_snippet result)) [] in
      if snippet \<noteq> [] \<and> \<not> list_ex (\<lambda>r. title r = wiki_title result) allResults
      then allResults @
             [\<lparr>title = wiki_title result, snippet = snippet,
               url = base @ encodeURIComponent (replaceAll '' '' ''_'' (wiki_title result)),
               source = label\<rparr>]
      else allResults)"

definition source_wikipedia :: "world \<Rightarrow> string \<Rightarrow> search_result list \<Rightarrow> block" where
  "source_wikipedia w query allResults =
     (case fetch_wiki w (''https://en.wikipedia.org/w/api.php?action=query&list=search&srsearch=''
                           @ encodeURIComponent query @ ''&format=json&origin=*&srlimit=3'') of
        Ok searchResults \<Rightarrow>
          (foldl (push_wiki ''https://en.wikipedia.org/wiki/'' ''Wikipedia'') allResults searchResults,
           None)
      | NotOk st \<Rightarrow> (allResults, None)
      | r \<Rightarrow> (allResults, Some (reply_error r)))"

text \<open>The test of \<open>[a-ya yo]\<close> with the flag \<open>i\<close>: a Russian letter of either case.\<close>

fun hasRussian :: "string \<Rightarrow> bool" where
  "hasRussian [] = False"
| "hasRussian [c] = False"
| "hasRussian (c # d # s) =
     ((c = CHR 0xD0 \<and> ((0x90 \<le> (of_char d :: nat) \<and> (of_char d :: nat) \<le> 0xBF) \<or> d = CHR 0x81))
      \<or> (c = CHR 0xD1 \<and> ((0x80 \<le> (of_char d :: nat) \<and> (of_char d :: nat) \<le> 0x8F) \<or> d = CHR 0x91))
      \<or> hasRussian (d # s))"

definition ru_vikipediya :: string where
  "ru_vikipediya =
     [CHR 0xD0, CHR 0x92, CHR 0xD0, CHR 0xB8, CHR 0xD0, CHR 0xBA, CHR 0xD0, CHR 0xB8, CHR 0xD0,
      CHR 0xBF, CHR 0xD0, CHR 0xB5, CHR 0xD0, CHR 0xB4, CHR 0xD0, CHR 0xB8, CHR 0xD1, CHR 0x8F]"

definition source_ru_wikipedia :: "world \<Rightarrow> string \<Rightarrow> search_result list \<Rightarrow> block" where
  "source_ru_wikipedia w query allResults =
     (case fetch_wiki w (''https://ru.wikipedia.org/w/api.php?action=query&list=search&srsearch=''
                           @ encodeURIComponent query @ ''&format=json&origin=*&srlimit=3'') of
        Ok results \<Rightarrow>
          (foldl (push_wiki ''https://ru.wikipedia.org/wiki/'' ru_vikipediya) allResults results,
           None)
      | NotOk st \<Rightarrow> (allResults, None)
      | r \<Rightarrow> (allResults, Some (reply_error r)))"

text \<open>Source 5: Hacker News.\<close>

definition push_hn :: "world \<Rightarrow> search_result list \<Rightarrow> hn_hit \<Rightarrow> search_result list" where
  "push_hn w allResults hit =
     (if hn_title hit \<noteq> [] \<and> \<not> list_ex (\<lambda>r. title r = hn_title hit) allResults
      then allResults @
             [\<lparr>title = hn_title hit,
               snippet = show_nat (points hit) @ '' points | '' @ show_nat (num_comments hit)
                 @ '' comments | by '' @ or_string (author hit) ''unknown'' @ '' | ''
                 @ toLocaleDateString w (created_at hit),
               url = or_string (hn_url hit)
                       (''https://news.ycombinator.com/item?id='' @ objectID hit),
               source = ''Hacker News''\<rparr>]
      else allResults)"

definition source_hn :: "world \<Rightarrow> string \<Rightarrow> search_result list \<Rightarrow> block" where
  "source_hn w query allResults =
     (case fetch_hn w (''https://hn.algolia.com/api/v1/search?query='' @ encodeURIComponent query
                         @ ''&tags=story&hitsPerPage=5'') of
        Ok hits \<Rightarrow> (foldl (push_hn w) allResults (take 5 hits), None)
      | NotOk st \<Rightarrow> (allResults, None)
      | r \<Rightarrow> (allResults, Some (reply_error r)))"

text \<open>Source 6: Stack Overflow, for programming queries.\<close>

definition progKeywords :: "string list" where
  "progKeywords =
     [''code'', ''error'', ''function'', ''how to'', ''tutorial'', ''example'', ''javascript'',
      ''python'', ''react'', ''typescript'', ''css'', ''html'', ''api'',
      ru_programmirovanie, ru_oshibka, ru_kod]"

definition isProgrammingQuery :: "string \<Rightarrow> bool" where
  "isProgrammingQuery query = list_ex (\<lambda>kw. str_includes (toLowerCase query) kw) progKeywords"

definition push_so :: "search_result list \<Rightarrow> so_item \<Rightarrow> search_result list" where
  "push_so allResults item =
     (if so_title item \<noteq> [] \<and> \<not> list_ex (\<lambda>r. url r = link item) allResults
      then allResults @
             [\<lparr>title = replaceAll ''&amp;'' ''&''
                         (replaceAll ''&#39;'' [CHR 0x27]
                           (replaceAll ''&quot;'' [CHR 0x22] (so_title item))),
               snippet = ''Score: '' @ show_int (score item) @ '' | Answers: ''
                 @ show_nat (answer_count item) @ '' | Views: '' @ show_nat (view_count item),
               url = link item,
               source = ''Stack Overflow''\<rparr>]
      else allResults)"

definition source_so :: "world \<Rightarrow> string \<Rightarrow> search_result list \<Rightarrow> block" where
  "source_so w query allResults =
     (case fetch_so w (''https://api.stackexchange.com/2.3/search/advanced?order=desc&sort=relevance&q=''
                         @ encodeURIComponent query
                         @ ''&site=stackoverflow&pagesize=3&filter=!nNPvSNdWme'') of
        Ok items \<Rightarrow> (foldl push_so allResults (take 3 items), None)
      | NotOk st \<Rightarrow> (allResults, None)
      | r \<Rightarrow> (allResults, Some (reply_error r)))"

text \<open>Source 7: Reddit.\<close>

definition push_reddit :: "search_result list \<Rightarrow> reddit_post \<Rightarrow> search_result list" where
  "push_reddit allResults d =
     (if post_title d \<noteq> []
         \<and> \<not> list_ex (\<lambda>r. url r = ''https://reddit.com'' @ permalink d) allResults
      then allResults @
             [\<lparr>title = post_title d,
               snippet = ''r/'' @ subreddit d @ '' | '' @ show_int (post_score d)
                 @ '' upvotes | '' @ show_nat (post_comments d) @ '' comments'',
               url = ''https://reddit.com'' @ permalink d,
               source = ''Reddit''\<rparr>]
      else allResults)"

definition source_reddit :: "world \<Rightarrow> string \<Rightarrow> search_result list \<Rightarrow> block" where
  "source_reddit w query allResults =
     (case fetch_reddit w (''https://www.reddit.com/search.json?q='' @ encodeURIComponent query
                             @ ''&limit=3&sort=relevance'') of
        Ok children \<Rightarrow> (foldl push_reddit allResults (take 3 children), None)
      | NotOk st \<Rightarrow> (allResults, None)
      | r \<Rightarrow> (allResults, Some (reply_error r)))"

text \<open>The list \<open>allResults\<close> after each of the seven sources, each in its own \<open>try\<close>.\<close>

definition allResults1 :: "world \<Rightarrow> string \<Rightarrow> search_result list" where
  "allResults1 w query = try_catch (source_ddg_html w query [])"

definition allResults2 :: "world \<Rightarrow> string \<Rightarrow> search_result list" where
  "allResults2 w query = try_catch (source_ddg_api w query (allResults1 w query))"

definition allResults3 :: "world \<Rightarrow> string \<Rightarrow> search_result list" where
  "allResults3 w query = try_catch (source_wikipedia w query (allResults2 w query))"

definition allResults4 :: "world \<Rightarrow> string \<Rightarrow> search_result list" where
  "allResults4 w query =
     (if hasRussian query then try_catch (source_ru_wikipedia w query (allResults3 w query))
      else allResults3 w query)"

definition allResults5 :: "world \<Rightarrow> string \<Rightarrow> search_result list" where
  "allResults5 w query = try_catch (source_hn w query (allResults4 w query))"

definition allResults6 :: "world \<Rightarrow> string \<Rightarrow> search_result list" where
  "allResults6 w query =
     (if isProgrammingQuery query then try_catch (source_so w query (allResults5 w query))
      else allResults5 w query)"

definition allResults7 :: "world \<Rightarrow> string \<Rightarrow> search_result list" where
  "allResults7 w query = try_catch (source_reddit w query (allResults6 w query))"

record search_outcome =
  success :: bool
  results :: "search_result list"
  outcome_source :: "string option"
  outcome_error :: "string option"

text \<open>\<open>performWebSearch\<close>: the object it returns, or the error it throws.\<close>

definition performWebSearch :: "world \<Rightarrow> string \<Rightarrow> error + search_outcome" where
  "performWebSearch w query =
     (let allResults = allResults7 w query in
      if length allResults > 0
      then Inr \<lparr>success = True, results = take 15 allResults,
                outcome_source = Some ''multi-source'', outcome_error = None\<rparr>
      else Inr \<lparr>success = False, results = [], outcome_source = None,
                outcome_error = Some ''Search failed - no results from any source''\<rparr>)"


text \<open>The list in the object that is returned, empty when an error is thrown.\<close>

definition returned :: "error + search_outcome \<Rightarrow> search_result list" where
  "returned x = (case x of Inl e \<Rightarrow> [] | Inr r \<Rightarrow> results r)"

subsection \<open>Vocabulary of the claims\<close>


definition same_snippet :: "search_result \<Rightarrow> search_result \<Rightarrow> bool" where
  "same_snippet x r = (snippet x = snippet r)"

definition same_title :: "search_result \<Rightarrow> search_result \<Rightarrow> bool" where
  "same_title x r = (title x = title r)"


fun fresh_by ::
  "(search_result \<Rightarrow> search_result \<Rightarrow> bool) \<Rightarrow> search_result list \<Rightarrow> search_result list \<Rightarrow> bool" where
  "fresh_by dup seen [] = True"
| "fresh_by dup seen (r # rs) = (\<not> list_ex (\<lambda>x. dup x r) seen \<and> fresh_by dup (seen @ [r]) rs)"

definition extends_by ::
  "(search_result \<Rightarrow> search_result \<Rightarrow> bool) \<Rightarrow> search_result list \<Rightarrow> search_result list \<Rightarrow> bool" where
  "extends_by dup prev nxt \<longleftrightarrow>
     take (length prev) nxt = prev \<and> fresh_by dup prev (drop (length prev) nxt)"

text \<open>
  What the sources add without a check. In \<open>performWebSearch\<close>: the instant answer and
  the abstract, which are put in front of the list. In \<open>web_search\<close>: the article of
  Wikipedia, and the stories of Hacker News, of which as many are taken as there is room
  for under the cap.
\<close>

definition instant_answers :: "world \<Rightarrow> string \<Rightarrow> search_result list" where
  "instant_answers w query =
     (case fetch_ddg w (''https://api.duckduckgo.com/?q='' @ encodeURIComponent query
                          @ ''&format=json&no_html=1&skip_disambig=1'') of
        Ok data \<Rightarrow>
          (if Answer data \<noteq> []
           then [\<lparr>title = ''Direct Answer'', snippet = Answer data, url = [],
                   source = ''DuckDuckGo''\<rparr>]
           else [])
          @ (if Abstract data \<noteq> [] \<and> js_length (Abstract data) > 30
             then [\<lparr>title = or_string (Heading data) ''Quick Answer'',
                     snippet = Abstract data,
                     url = or_string (AbstractURL data) [],
                     source = or_string (AbstractSource data) ''DuckDuckGo''\<rparr>]
             else [])
      | _ \<Rightarrow> [])"

definition hn_story :: "hn_hit \<Rightarrow> search_result" where
  "hn_story hit =
     \<lparr>title = or_string (hn_title hit) ''Hacker News'',
      snippet = show_nat (points hit) @ '' points | '' @ show_nat (num_comments hit)
        @ '' comments | '' @ or_string (author hit) ''unknown'',
      url = or_string (hn_url hit) (''https://news.ycombinator.com/item?id='' @ objectID hit),
      source = ''Hacker News''\<rparr>"

definition hn_stories :: "world \<Rightarrow> string \<Rightarrow> search_result list" where
  "hn_stories w query =
     (if list_ex (\<lambda>kw. str_includes (toLowerCase query) kw) techKeywords
      then (case fetch_hn w (''https://hn.algolia.com/api/v1/search?query=''
                               @ encodeURIComponent query @ ''&tags=story&hitsPerPage=3'') of
              Ok hits \<Rightarrow> map hn_story hits
            | _ \<Rightarrow> [])
      else [])"

definition room :: "rat \<Rightarrow> nat \<Rightarrow> nat" where
  "room m n = (if of_nat n \<ge> m then 0 else nat \<lceil>m - of_nat n\<rceil>)"

text \<open>
  A source has a result to give, for each of the seven sources of \<open>performWebSearch\<close>,
  read off the replies of the network: the first proxy that answers gives a page in which
  the scraper finds a result; the instant answer has an abstract of more than 30
  characters, an answer, or a first topic with a text (whose URL, if it has one, is
  valid); a search gives a hit with a snippet or a title.
\<close>

fun first_ok :: "'a reply list \<Rightarrow> 'a option" where
  "first_ok [] = None"
| "first_ok (Ok x # rs) = Some x"
| "first_ok (r # rs) = first_ok rs"

definition offers_scraped :: "world \<Rightarrow> string \<Rightarrow> bool" where
  "offers_scraped w query =
     (case first_ok (map (\<lambda>p. fetch_text w (p (''https://html.duckduckgo.com/html/?q=''
                                                  @ encodeURIComponent query))) searchProxies) of
        None \<Rightarrow> False
      | Some html \<Rightarrow>
          html \<noteq> [] \<and> (case parseSearchResults w html of None \<Rightarrow> False | Some rs \<Rightarrow> rs \<noteq> []))"

definition offers_topic :: "world \<Rightarrow> topic list \<Rightarrow> bool" where
  "offers_topic w ts =
     (case find (\<lambda>t. Text t \<noteq> []) ts of
        None \<Rightarrow> False
      | Some t \<Rightarrow> FirstURL t = [] \<or> hostname w (FirstURL t) \<noteq> None)"

definition offers_instant :: "world \<Rightarrow> string \<Rightarrow> bool" where
  "offers_instant w query =
     (case fetch_ddg w (''https://api.duckduckgo.com/?q='' @ encodeURIComponent query
                          @ ''&format=json&no_html=1&skip_disambig=1'') of
        Ok data \<Rightarrow>
          (Abstract data \<noteq> [] \<and> js_length (Abstract data) > 30) \<or> Answer data \<noteq> []
          \<or> offers_topic w (take 3 (RelatedTopics data))
      | _ \<Rightarrow> False)"

definition offers_wikipedia :: "world \<Rightarrow> string \<Rightarrow> bool" where
  "offers_wikipedia w query =
     (case fetch_wiki w (''https://en.wikipedia.org/w/api.php?action=query&list=search&srsearch=''
                           @ encodeURIComponent query @ ''&format=json&origin=*&srlimit=3'') of
        Ok rs \<Rightarrow> list_ex (\<lambda>r. stripTags (wiki_snippet r) \<noteq> []) rs
      | _ \<Rightarrow> False)"

definition offers_ru_wikipedia :: "world \<Rightarrow> string \<Rightarrow> bool" where
  "offers_ru_wikipedia w query =
     (hasRussian query \<and>
      (case fetch_wiki w (''https://ru.wikipedia.org/w/api.php?action=query&list=search&srsearch=''
                            @ encodeURIComponent query @ ''&format=json&origin=*&srlimit=3'') of
         Ok rs \<Rightarrow> list_ex (\<lambda>r. stripTags (wiki_snippet r) \<noteq> []) rs
       | _ \<Rightarrow> False))"

definition offers_hn :: "world \<Rightarrow> string \<Rightarrow> bool" where
  "offers_hn w query =
     (case fetch_hn w (''https://hn.algolia.com/api/v1/search?query='' @ encodeURIComponent query
                         @ ''&tags=story&hitsPerPage=5'') of
        Ok hits \<Rightarrow> list_ex (\<lambda>h. hn_title h \<noteq> []) (take 5 hits)
      | _ \<Rightarrow> False)"

definition offers_so :: "world \<Rightarrow> string \<Rightarrow> bool" where
  "offers_so w query =
     (isProgrammingQuery query \<and>
      (case fetch_so w (''https://api.stackexchange.com/2.3/search/advanced?order=desc&sort=relevance&q=''
                          @ encodeURIComponent query
                          @ ''&site=stackoverflow&pagesize=3&filter=!nNPvSNdWme'') of
         Ok items \<Rightarrow> list_ex (\<lambda>i. so_title i \<noteq> []) (take 3 items)
       | _ \<Rightarrow> False))"

definition offers_reddit :: "world \<Rightarrow> string \<Rightarrow> bool" where
  "offers_reddit w query =
     (case fetch_reddit w (''https://www.reddit.com/search.json?q='' @ encodeURIComponent query
                             @ ''&limit=3&sort=relevance'') of
        Ok posts \<Rightarrow> list_ex (\<lambda>d. post_title d \<noteq> []) (take 3 posts)
      | _ \<Rightarrow> False)"

definition some_source_offers :: "world \<Rightarrow> string \<Rightarrow> bool" where
  "some_source_offers w query \<longleftrightarrow>
     offers_scraped w query \<or> offers_instant w query \<or> offers_wikipedia w query
     \<or> offers_ru_wikipedia w query \<or> offers_hn w query \<or> offers_so w query
     \<or> offers_reddit w query"




section \<open>Proof vocabulary and sample data for the decoder\<close>

text \<open>
  The state of the inner loop between two line ends: every line end between
  \<open>processedUpTo\<close> and \<open>searchStart\<close> closed a line that was found incomplete.
\<close>

definition pending :: "(string \<Rightarrow> json option) \<Rightarrow> string \<Rightarrow> nat \<Rightarrow> nat \<Rightarrow> bool" where
  "pending parse buffer p s \<longleftrightarrow>
     p \<le> s \<and> s \<le> length buffer \<and>
     (\<forall>n. p \<le> n \<and> n < s \<and> buffer ! n = CHR 0x0A \<longrightarrow>
        trim (substring buffer p n) \<noteq> [] \<and>
        incomplete (processLine parse (substring buffer p n)))"


text \<open>
  The scan of the buffer that the inner loop makes, without the running total: the
  truthy contents of the complete lines, in order, and the final \<open>processedUpTo\<close>.
  The inner loop is this scan, cut at the first content that cannot be converted to a
  string.
\<close>

function inner_scan ::
  "(string \<Rightarrow> json option) \<Rightarrow> string \<Rightarrow> nat \<Rightarrow> nat \<Rightarrow> json list \<times> nat" where
  "inner_scan parse buffer processedUpTo searchStart =
     (case indexOf buffer (CHR 0x0A) searchStart of
        None \<Rightarrow> ([], processedUpTo)
      | Some newlineIndex \<Rightarrow>
          let line = substring buffer processedUpTo newlineIndex in
          if trim line = [] then inner_scan parse buffer (newlineIndex + 1) (newlineIndex + 1)
          else
            let result = processLine parse line in
            if incomplete result then
              (if newlineIndex + 1 \<ge> length buffer then ([], processedUpTo)
               else inner_scan parse buffer processedUpTo (newlineIndex + 1))
            else
              let (ys, p) = inner_scan parse buffer (newlineIndex + 1) (newlineIndex + 1)
              in ((if truthy (content result) then [content result] else []) @ ys, p))"
  by pat_completeness auto
termination
  by (relation "measure (\<lambda>(parse, buffer, processedUpTo, searchStart). length buffer - searchStart)")
     (auto simp: indexOf_def find_Some_iff)

declare inner_scan.simps [simp del]

definition cut :: "json list \<times> nat \<Rightarrow> json list \<times> (error + nat)" where
  "cut r =
     (takeWhile convertible (fst r),
      if list_all convertible (fst r) then Inr (snd r) else Inl TypeError)"


text \<open>A \<open>fetch\<close> that answers 200 with the body in the given chunks, and sample streams.\<close>

definition reply_ok :: "string list \<Rightarrow> chat_request \<Rightarrow> error + response" where
  "reply_ok chunks req = Inr \<lparr>ok = True, status = 200, body = chunks\<rparr>"

definition default_options :: options where
  "default_options =
     \<lparr>model = None, apiKey = None, systemPrompt = None, temperature = None,
      agentMode = None, forceNonStreaming = None\<rparr>"

definition thinking_options :: options where
  "thinking_options = default_options\<lparr>model := Some ''claude-opus-4.5-thinking''\<rparr>"

definition sample_stream :: string where
  \<open>sample_stream =
     ''data: {"choices":[{"delta":{"content":"Hel"}}]}\<newline>\<newline>data: {"choices":[{"delta":{"content":"lo"}}]}\<newline>\<newline>data: [DONE]\<newline>''\<close>

definition sample_split :: "string list" where
  \<open>sample_split =
     [''data: {"choi'', ''ces":[{"delta":{"content":"Hel"}}]}\<newline>\<newline>da'', [],
      ''ta: {"choices":[{"delta":{"content":"lo"}}]}'', ''\<newline>\<newline>data: [DONE]\<newline>'']\<close>


definition truncated_stream :: string where
  \<open>truncated_stream = ''data: {"choices":[{"delta":{"content":"Hi"}}]}\<newline>''\<close>

definition truncated_remnant :: string where
  \<open>truncated_remnant = ''data: {"choices":[{"delta":{"conte''\<close>

definition object_content_stream :: string where
  \<open>object_content_stream = ''data: {"content":{"toString":1}}\<newline>''\<close>

definition content_parts_stream :: string where
  \<open>content_parts_stream = ''data: {"content":[{"type":"text","text":"hi"}]}\<newline>''\<close>

definition empty_delta_stream :: string where
  \<open>empty_delta_stream =
     ''data: {"choices":[{"delta":{"content":""}}]}\<newline>data: {"choices":[{"delta":{"content":"hi"}}]}\<newline>''\<close>

definition message_response :: string where
  \<open>message_response = ''{"choices":[{"message":{"role":"assistant","content":"Full answer."}}]}''\<close>

definition empty_message_response :: string where
  \<open>empty_message_response = ''{"choices":[{"message":{"role":"assistant","content":""}}]}''\<close>

definition null_delta_content_response :: string where
  \<open>null_delta_content_response = ''{"choices":[{"message":{"role":"assistant"}}]}''\<close>





section \<open>Sample data for the fetchers and the aggregators\<close>

text \<open>
  Sample networks for the fetchers: one where only the target itself answers, one where
  only the third proxy does. The scrapers and the renderer are stand-ins that return the
  page as it is.
\<close>

definition only_direct :: "string \<Rightarrow> string reply" where
  "only_direct u = (if u = ''https://example.com/'' then Ok ''<title>Example</title>'' else Rejected)"

definition third_proxy_only :: "string \<Rightarrow> string reply" where
  "third_proxy_only u =
     (if u = ''https://api.codetabs.com/v1/proxy?quest=https%3A%2F%2Fexample.com%2F''
      then Ok ''<title>Example</title>'' else NotOk 503)"

definition whole_page :: "string \<Rightarrow> string \<Rightarrow> string" where
  "whole_page html page_url = html"

definition no_title :: "string \<Rightarrow> string" where
  "no_title html = []"

definition render_body :: "string \<Rightarrow> bool \<Rightarrow> string + string" where
  "render_body r extract_text = Inr r"


text \<open>
  Sample worlds for the aggregators: one where nothing answers, one with ten scraped
  results, three articles and five stories, and one where the sources overlap.
\<close>

definition dead_world :: world where
  "dead_world =
     \<lparr>fetch_text = (\<lambda>u. Rejected), fetch_ddg = (\<lambda>u. Rejected), fetch_wiki = (\<lambda>u. Rejected),
      fetch_summary = (\<lambda>u. Rejected), fetch_hn = (\<lambda>u. Rejected), fetch_so = (\<lambda>u. Rejected),
      fetch_reddit = (\<lambda>u. Rejected), parseSearchResults = (\<lambda>html. None),
      cheerio_results = (\<lambda>html. []), hostname = (\<lambda>u. None), toLocaleDateString = (\<lambda>d. d)\<rparr>"

definition scraped10 :: "search_result list" where
  "scraped10 =
     map (\<lambda>i. \<lparr>title = ''Result '' @ show_nat i, snippet = ''Snippet '' @ show_nat i,
               url = ''https://example.org/'' @ show_nat i, source = ''Web''\<rparr>) [0 ..< 10]"

definition elems10 :: "result_elem list" where
  "elems10 =
     map (\<lambda>i. \<lparr>result_a_text = ''Result '' @ show_nat i,
               result_a_href = ''https://example.org/'' @ show_nat i,
               result_snippet_text = ''Snippet '' @ show_nat i\<rparr>) [0 ..< 10]"

definition wiki3 :: "wiki_result list" where
  "wiki3 =
     map (\<lambda>i. \<lparr>wiki_title = ''Article '' @ show_nat i, wiki_snippet = ''About '' @ show_nat i\<rparr>)
       [0 ..< 3]"

definition hn5 :: "hn_hit list" where
  "hn5 =
     map (\<lambda>i. \<lparr>hn_title = ''Story '' @ show_nat i, points = i, num_comments = i, author = ''pg'',
               created_at = ''2024-01-01'', hn_url = ''https://news.example/'' @ show_nat i,
               objectID = show_nat i\<rparr>) [0 ..< 5]"

definition busy_world :: world where
  "busy_world =
     dead_world\<lparr>fetch_text := (\<lambda>u. Ok ''<html>''), parseSearchResults := (\<lambda>html. Some scraped10),
                cheerio_results := (\<lambda>html. elems10), fetch_wiki := (\<lambda>u. Ok wiki3),
                fetch_hn := (\<lambda>u. Ok hn5)\<rparr>"



section \<open>The inner loop\<close>

lemma indexOf_None_iff:
  "indexOf s c start = None \<longleftrightarrow> (\<forall>i. start \<le> i \<and> i < length s \<longrightarrow> s ! i \<noteq> c)"
  unfolding indexOf_def by (auto simp: find_None_iff)

lemma indexOf_Some_iff:
  "indexOf s c start = Some n \<longleftrightarrow>
     start \<le> n \<and> n < length s \<and> s ! n = c \<and> (\<forall>i. start \<le> i \<and> i < n \<longrightarrow> s ! i \<noteq> c)"
proof
  assume "indexOf s c start = Some n"
  then obtain k where k: "k < length [start..<length s]" "s ! ([start..<length s] ! k) = c"
    "n = [start..<length s] ! k" "\<forall>j<k. s ! ([start..<length s] ! j) \<noteq> c"
    unfolding indexOf_def find_Some_iff by blast
  have n: "n = start + k" using k(1,3) by simp
  have "s ! i \<noteq> c" if "start \<le> i" "i < n" for i
  proof -
    have "i - start < k" using that n by simp
    with k(4) have "s ! ([start..<length s] ! (i - start)) \<noteq> c" by blast
    moreover have "[start..<length s] ! (i - start) = i" using that k(1) n by simp
    ultimately show ?thesis by simp
  qed
  then show "start \<le> n \<and> n < length s \<and> s ! n = c \<and> (\<forall>i. start \<le> i \<and> i < n \<longrightarrow> s ! i \<noteq> c)"
    using k n by auto
next
  assume a: "start \<le> n \<and> n < length s \<and> s ! n = c \<and> (\<forall>i. start \<le> i \<and> i < n \<longrightarrow> s ! i \<noteq> c)"
  show "indexOf s c start = Some n"
    unfolding indexOf_def find_Some_iff
  proof (intro exI[of _ "n - start"] conjI)
    show "n - start < length [start..<length s]" using a by (simp add: diff_less_mono)
    show "s ! ([start..<length s] ! (n - start)) = c" using a by simp
    show "n = [start..<length s] ! (n - start)" using a by simp
    show "\<forall>j<n - start. s ! ([start..<length s] ! j) \<noteq> c" using a by auto
  qed
qed

lemma indexOf_append:
  assumes "indexOf s c start = Some n"
  shows "indexOf (s @ e) c start = Some n"
  using assms unfolding indexOf_Some_iff by (auto simp: nth_append)

lemma indexOf_drop:
  "indexOf s c (start + k) = map_option (\<lambda>n. n + k) (indexOf (drop k s) c start)"
proof (cases "indexOf (drop k s) c start")
  case None
  then have "\<forall>i. start \<le> i \<and> i < length s - k \<longrightarrow> s ! (k + i) \<noteq> c"
    unfolding indexOf_None_iff by auto
  have "s ! i \<noteq> c" if "start + k \<le> i" "i < length s" for i
  proof -
    have "start \<le> i - k" "i - k < length s - k" using that by auto
    with None have "drop k s ! (i - k) \<noteq> c" unfolding indexOf_None_iff by simp
    then show ?thesis using that by simp
  qed
  then have "indexOf s c (start + k) = None" unfolding indexOf_None_iff by blast
  then show ?thesis using None by simp
next
  case (Some n)
  then have n: "start \<le> n" "n < length s - k" "s ! (k + n) = c"
    "\<forall>i. start \<le> i \<and> i < n \<longrightarrow> s ! (k + i) \<noteq> c"
    unfolding indexOf_Some_iff by auto
  have "s ! i \<noteq> c" if "start + k \<le> i" "i < n + k" for i
  proof -
    have "start \<le> i - k" "i - k < n" using that by auto
    with n(4) have "s ! (k + (i - k)) \<noteq> c" by blast
    then show ?thesis using that by simp
  qed
  then have "indexOf s c (start + k) = Some (n + k)"
    unfolding indexOf_Some_iff using n by (auto simp: add.commute)
  then show ?thesis using Some by simp
qed

lemma substring_append:
  "a \<le> b \<Longrightarrow> b \<le> length s \<Longrightarrow> substring (s @ e) a b = substring s a b"
  by (simp add: substring_def)

lemma substring_drop:
  "substring (drop k s) a b = substring s (a + k) (b + k)"
proof -
  have "min (a + k) (b + k) = min a b + k" "max (a + k) (b + k) = max a b + k" by auto
  then show ?thesis by (simp add: substring_def add.commute)
qed


lemma inner_scan_None:
  "indexOf buffer (CHR 0x0A) s = None \<Longrightarrow> inner_scan parse buffer p s = ([], p)"
  by (subst inner_scan.simps) simp

lemma inner_scan_blank:
  "indexOf buffer (CHR 0x0A) s = Some n \<Longrightarrow> trim (substring buffer p n) = [] \<Longrightarrow>
   inner_scan parse buffer p s = inner_scan parse buffer (n + 1) (n + 1)"
  by (subst inner_scan.simps) simp

lemma inner_scan_incomplete:
  "indexOf buffer (CHR 0x0A) s = Some n \<Longrightarrow> trim (substring buffer p n) \<noteq> [] \<Longrightarrow>
   incomplete (processLine parse (substring buffer p n)) \<Longrightarrow>
   inner_scan parse buffer p s =
     (if n + 1 \<ge> length buffer then ([], p) else inner_scan parse buffer p (n + 1))"
  by (subst inner_scan.simps) (simp add: Let_def)

lemma inner_scan_complete:
  "indexOf buffer (CHR 0x0A) s = Some n \<Longrightarrow> trim (substring buffer p n) \<noteq> [] \<Longrightarrow>
   \<not> incomplete (processLine parse (substring buffer p n)) \<Longrightarrow>
   inner_scan parse buffer p s =
     ((if truthy (content (processLine parse (substring buffer p n)))
       then [content (processLine parse (substring buffer p n))] else [])
        @ fst (inner_scan parse buffer (n + 1) (n + 1)),
      snd (inner_scan parse buffer (n + 1) (n + 1)))"
  by (subst inner_scan.simps) (simp add: Let_def split: prod.splits)

lemma pending_refl: "p \<le> length buffer \<Longrightarrow> pending parse buffer p p"
  by (auto simp: pending_def)

lemma pending_append:
  assumes "pending parse buffer p s"
  shows "pending parse (buffer @ ext) p s"
proof -
  have "substring (buffer @ ext) p n = substring buffer p n" if "p \<le> n" "n < s" for n
    using that assms by (simp add: substring_append pending_def)
  moreover have "(buffer @ ext) ! n = buffer ! n" if "n < s" for n
    using that assms by (simp add: nth_append pending_def)
  ultimately show ?thesis using assms unfolding pending_def by auto
qed

lemma pending_step:
  assumes "pending parse buffer p s" "indexOf buffer (CHR 0x0A) s = Some n"
    "trim (substring buffer p n) \<noteq> []" "incomplete (processLine parse (substring buffer p n))"
  shows "pending parse buffer p (n + 1)"
proof -
  from assms(2) have n: "s \<le> n" "n < length buffer"
    "\<forall>i. s \<le> i \<and> i < n \<longrightarrow> buffer ! i \<noteq> CHR 0x0A"
    unfolding indexOf_Some_iff by auto
  have "trim (substring buffer p m) \<noteq> [] \<and> incomplete (processLine parse (substring buffer p m))"
    if "p \<le> m" "m < n + 1" "buffer ! m = CHR 0x0A" for m
  proof (cases "m < s")
    case True
    then show ?thesis using assms(1) that unfolding pending_def by blast
  next
    case False
    then have "m = n" using n(3) that by (metis Suc_eq_plus1 less_Suc_eq not_le_imp_less)
    then show ?thesis using assms(3,4) by simp
  qed
  then show ?thesis using assms(1) n unfolding pending_def by auto
qed

lemma inner_scan_restart:
  assumes "pending parse buffer p s"
  shows "p \<le> s' \<Longrightarrow> s' \<le> s \<Longrightarrow> inner_scan parse buffer p s' = inner_scan parse buffer p s"
proof (induction "s - s'" arbitrary: s' rule: less_induct)
  case less
  show ?case
  proof (cases "indexOf buffer (CHR 0x0A) s'")
    case None
    then have "indexOf buffer (CHR 0x0A) s = None"
      using less.prems unfolding indexOf_None_iff by auto
    then show ?thesis using None by (simp add: inner_scan_None)
  next
    case (Some n)
    then have n: "s' \<le> n" "n < length buffer" "buffer ! n = CHR 0x0A"
      "\<forall>i. s' \<le> i \<and> i < n \<longrightarrow> buffer ! i \<noteq> CHR 0x0A"
      unfolding indexOf_Some_iff by auto
    show ?thesis
    proof (cases "n < s")
      case True
      then have inc: "trim (substring buffer p n) \<noteq> []"
        "incomplete (processLine parse (substring buffer p n))"
        using assms n less.prems unfolding pending_def by auto
      show ?thesis
      proof (cases "n + 1 \<ge> length buffer")
        case True
        then have "s = length buffer" using \<open>n < s\<close> assms unfolding pending_def by simp
        then have "indexOf buffer (CHR 0x0A) s = None" unfolding indexOf_None_iff by auto
        then show ?thesis using True by (simp add: inner_scan_incomplete[OF Some inc] inner_scan_None)
      next
        case False
        have "inner_scan parse buffer p (n + 1) = inner_scan parse buffer p s"
          using less.prems n \<open>n < s\<close> by (intro less.hyps) auto
        then show ?thesis using False by (simp add: inner_scan_incomplete[OF Some inc])
      qed
    next
      case False
      then have Some': "indexOf buffer (CHR 0x0A) s = Some n"
        using n less.prems unfolding indexOf_Some_iff by auto
      show ?thesis
        by (subst inner_scan.simps, subst (2) inner_scan.simps) (simp add: Some Some')
    qed
  qed
qed

lemma inner_scan_extend:
  "pending parse buffer p s \<Longrightarrow>
   inner_scan parse (buffer @ ext) p s =
     (fst (inner_scan parse buffer p s)
        @ fst (inner_scan parse (buffer @ ext) (snd (inner_scan parse buffer p s))
                 (snd (inner_scan parse buffer p s))),
      snd (inner_scan parse (buffer @ ext) (snd (inner_scan parse buffer p s))
                 (snd (inner_scan parse buffer p s))))"
proof (induction "length buffer - s" arbitrary: p s rule: less_induct)
  case less
  have pe: "pending parse (buffer @ ext) p s" using less.prems by (rule pending_append)
  have ps: "p \<le> s" "s \<le> length buffer" using less.prems unfolding pending_def by auto
  have restart: "inner_scan parse (buffer @ ext) p s = inner_scan parse (buffer @ ext) p p"
    using inner_scan_restart[OF pe, of p] ps by simp
  show ?case
  proof (cases "indexOf buffer (CHR 0x0A) s")
    case None
    then show ?thesis using restart by (simp add: inner_scan_None)
  next
    case (Some n)
    then have n: "s \<le> n" "n < length buffer" unfolding indexOf_Some_iff by auto
    have Some': "indexOf (buffer @ ext) (CHR 0x0A) s = Some n" using Some by (rule indexOf_append)
    have sub: "substring (buffer @ ext) p n = substring buffer p n"
      using ps n by (simp add: substring_append)
    show ?thesis
    proof (cases "trim (substring buffer p n) = []")
      case True
      have "pending parse buffer (n + 1) (n + 1)" using n by (simp add: pending_refl)
      then have IH: "inner_scan parse (buffer @ ext) (n + 1) (n + 1) =
        (fst (inner_scan parse buffer (n + 1) (n + 1))
          @ fst (inner_scan parse (buffer @ ext) (snd (inner_scan parse buffer (n + 1) (n + 1)))
                 (snd (inner_scan parse buffer (n + 1) (n + 1)))),
         snd (inner_scan parse (buffer @ ext) (snd (inner_scan parse buffer (n + 1) (n + 1)))
                 (snd (inner_scan parse buffer (n + 1) (n + 1)))))"
        using n by (intro less.hyps) auto
      show ?thesis
        using True sub IH
        by (simp add: inner_scan_blank[OF Some] inner_scan_blank[OF Some'])
    next
      case nonblank: False
      show ?thesis
      proof (cases "incomplete (processLine parse (substring buffer p n))")
        case True
        show ?thesis
        proof (cases "n + 1 \<ge> length buffer")
          case True
          then have "inner_scan parse buffer p s = ([], p)"
            using inner_scan_incomplete[OF Some nonblank \<open>incomplete _\<close>] by simp
          then show ?thesis using restart by simp
        next
          case False
          have "pending parse buffer p (n + 1)"
            using less.prems Some nonblank True by (rule pending_step)
          then have IH: "inner_scan parse (buffer @ ext) p (n + 1) =
            (fst (inner_scan parse buffer p (n + 1))
              @ fst (inner_scan parse (buffer @ ext) (snd (inner_scan parse buffer p (n + 1)))
                     (snd (inner_scan parse buffer p (n + 1)))),
             snd (inner_scan parse (buffer @ ext) (snd (inner_scan parse buffer p (n + 1)))
                     (snd (inner_scan parse buffer p (n + 1)))))"
            using n False by (intro less.hyps) auto
          have 1: "inner_scan parse buffer p s = inner_scan parse buffer p (n + 1)"
            using inner_scan_incomplete[OF Some nonblank True] False by simp
          have 2: "inner_scan parse (buffer @ ext) p s = inner_scan parse (buffer @ ext) p (n + 1)"
            using inner_scan_incomplete[OF Some', of p parse] nonblank True False sub by simp
          show ?thesis unfolding 1 2 by (rule IH)
        qed
      next
        case False
        have "pending parse buffer (n + 1) (n + 1)" using n by (simp add: pending_refl)
        then have IH: "inner_scan parse (buffer @ ext) (n + 1) (n + 1) =
          (fst (inner_scan parse buffer (n + 1) (n + 1))
            @ fst (inner_scan parse (buffer @ ext) (snd (inner_scan parse buffer (n + 1) (n + 1)))
                   (snd (inner_scan parse buffer (n + 1) (n + 1)))),
           snd (inner_scan parse (buffer @ ext) (snd (inner_scan parse buffer (n + 1) (n + 1)))
                   (snd (inner_scan parse buffer (n + 1) (n + 1)))))"
          using n by (intro less.hyps) auto
        have 1: "inner_scan parse buffer p s =
           ((if truthy (content (processLine parse (substring buffer p n)))
             then [content (processLine parse (substring buffer p n))] else [])
              @ fst (inner_scan parse buffer (n + 1) (n + 1)),
            snd (inner_scan parse buffer (n + 1) (n + 1)))"
          using inner_scan_complete[OF Some nonblank False] .
        have 2: "inner_scan parse (buffer @ ext) p s =
           ((if truthy (content (processLine parse (substring buffer p n)))
             then [content (processLine parse (substring buffer p n))] else [])
              @ fst (inner_scan parse (buffer @ ext) (n + 1) (n + 1)),
            snd (inner_scan parse (buffer @ ext) (n + 1) (n + 1)))"
          using inner_scan_complete[OF Some', of p parse] nonblank False sub by simp
        show ?thesis unfolding 1 2 using IH by (simp add: prod_eq_iff)
      qed
    qed
  qed
qed

lemma inner_scan_shift:
  "inner_scan parse buffer (p + k) (s + k) =
     (fst (inner_scan parse (drop k buffer) p s), snd (inner_scan parse (drop k buffer) p s) + k)"
proof (induction "length buffer - (s + k)" arbitrary: p s rule: less_induct)
  case less
  show ?case
  proof (cases "indexOf (drop k buffer) (CHR 0x0A) s")
    case None
    then have "indexOf buffer (CHR 0x0A) (s + k) = None" by (simp add: indexOf_drop)
    then show ?thesis using None by (simp add: inner_scan_None)
  next
    case (Some n)
    then have Some': "indexOf buffer (CHR 0x0A) (s + k) = Some (n + k)" by (simp add: indexOf_drop)
    from Some have n: "s \<le> n" "n + k < length buffer" unfolding indexOf_Some_iff by auto
    have sub: "substring buffer (p + k) (n + k) = substring (drop k buffer) p n"
      by (simp add: substring_drop)
    have IH: "inner_scan parse buffer (n + 1 + k) (n + 1 + k) =
       (fst (inner_scan parse (drop k buffer) (n + 1) (n + 1)),
        snd (inner_scan parse (drop k buffer) (n + 1) (n + 1)) + k)"
      using n by (intro less.hyps) auto
    have IH2: "n + 1 + k < length buffer \<Longrightarrow> inner_scan parse buffer (p + k) (n + 1 + k) =
       (fst (inner_scan parse (drop k buffer) p (n + 1)),
        snd (inner_scan parse (drop k buffer) p (n + 1)) + k)"
      using n by (intro less.hyps) auto
    have eq: "n + k + 1 = n + 1 + k" by simp
    show ?thesis
    proof (cases "trim (substring (drop k buffer) p n) = []")
      case True
      show ?thesis
        using True sub IH
        by (simp add: inner_scan_blank[OF Some] inner_scan_blank[OF Some'])
    next
      case nonblank: False
      show ?thesis
      proof (cases "incomplete (processLine parse (substring (drop k buffer) p n))")
        case True
        have 1: "inner_scan parse (drop k buffer) p s =
          (if n + 1 \<ge> length (drop k buffer) then ([], p) else inner_scan parse (drop k buffer) p (n + 1))"
          using inner_scan_incomplete[OF Some nonblank True] .
        have 2: "inner_scan parse buffer (p + k) (s + k) =
          (if n + k + 1 \<ge> length buffer then ([], p + k) else inner_scan parse buffer (p + k) (n + k + 1))"
          using inner_scan_incomplete[OF Some', of "p + k" parse] nonblank True sub by simp
        show ?thesis
        proof (cases "n + 1 + k < length buffer")
          case True
          then have "\<not> n + 1 \<ge> length (drop k buffer)" "\<not> n + k + 1 \<ge> length buffer" by auto
          then show ?thesis unfolding 1 2 using IH2[OF True] by (simp add: eq)
        next
          case False
          then have "n + 1 \<ge> length (drop k buffer)" "n + k + 1 \<ge> length buffer" by auto
          then show ?thesis unfolding 1 2 by simp
        qed
      next
        case False
        have 1: "inner_scan parse (drop k buffer) p s =
           ((if truthy (content (processLine parse (substring (drop k buffer) p n)))
             then [content (processLine parse (substring (drop k buffer) p n))] else [])
              @ fst (inner_scan parse (drop k buffer) (n + 1) (n + 1)),
            snd (inner_scan parse (drop k buffer) (n + 1) (n + 1)))"
          using inner_scan_complete[OF Some nonblank False] .
        have 2: "inner_scan parse buffer (p + k) (s + k) =
           ((if truthy (content (processLine parse (substring (drop k buffer) p n)))
             then [content (processLine parse (substring (drop k buffer) p n))] else [])
              @ fst (inner_scan parse buffer (n + k + 1) (n + k + 1)),
            snd (inner_scan parse buffer (n + k + 1) (n + k + 1)))"
          using inner_scan_complete[OF Some', of "p + k" parse] nonblank False sub by simp
        show ?thesis unfolding 1 2 using IH by (simp add: prod_eq_iff)
      qed
    qed
  qed
qed

lemma inner_scan_quiesce:
  "pending parse buffer p s \<Longrightarrow>
   \<exists>s'. pending parse buffer (snd (inner_scan parse buffer p s)) s'
        \<and> indexOf buffer (CHR 0x0A) s' = None"
proof (induction "length buffer - s" arbitrary: p s rule: less_induct)
  case less
  have ps: "p \<le> s" "s \<le> length buffer" using less.prems unfolding pending_def by auto
  show ?case
  proof (cases "indexOf buffer (CHR 0x0A) s")
    case None
    then show ?thesis using less.prems by (auto simp: inner_scan_None)
  next
    case (Some n)
    then have n: "s \<le> n" "n < length buffer" unfolding indexOf_Some_iff by auto
    have fresh: "\<exists>s'. pending parse buffer (snd (inner_scan parse buffer (n + 1) (n + 1))) s'
        \<and> indexOf buffer (CHR 0x0A) s' = None"
      using n by (intro less.hyps) (auto simp: pending_refl)
    show ?thesis
    proof (cases "trim (substring buffer p n) = []")
      case True
      then show ?thesis using fresh by (simp add: inner_scan_blank[OF Some])
    next
      case nonblank: False
      show ?thesis
      proof (cases "incomplete (processLine parse (substring buffer p n))")
        case True
        have pn: "pending parse buffer p (n + 1)"
          using less.prems Some nonblank True by (rule pending_step)
        show ?thesis
        proof (cases "n + 1 \<ge> length buffer")
          case True
          then have "n + 1 = length buffer" using n by simp
          then have "indexOf buffer (CHR 0x0A) (n + 1) = None" unfolding indexOf_None_iff by auto
          moreover have "inner_scan parse buffer p s = ([], p)"
            using inner_scan_incomplete[OF Some nonblank \<open>incomplete _\<close>] True by simp
          ultimately show ?thesis using pn by auto
        next
          case False
          have "\<exists>s'. pending parse buffer (snd (inner_scan parse buffer p (n + 1))) s'
              \<and> indexOf buffer (CHR 0x0A) s' = None"
            using n False pn by (intro less.hyps) auto
          then show ?thesis
            using inner_scan_incomplete[OF Some nonblank True] False by simp
        qed
      next
        case False
        then show ?thesis using fresh by (simp add: inner_scan_complete[OF Some nonblank False])
      qed
    qed
  qed
qed

lemma inner_scan_bound:
  "p \<le> length buffer \<Longrightarrow> snd (inner_scan parse buffer p p) \<le> length buffer"
  using inner_scan_quiesce[OF pending_refl, of p buffer parse] unfolding pending_def by auto

lemma inner_scan_append:
  "inner_scan parse (buffer @ ext) 0 0 =
     (fst (inner_scan parse buffer 0 0)
        @ fst (inner_scan parse (drop (snd (inner_scan parse buffer 0 0)) buffer @ ext) 0 0),
      snd (inner_scan parse (drop (snd (inner_scan parse buffer 0 0)) buffer @ ext) 0 0)
        + snd (inner_scan parse buffer 0 0))"
proof -
  let ?p1 = "snd (inner_scan parse buffer 0 0)"
  have b: "?p1 \<le> length buffer" using inner_scan_bound[of 0 buffer parse] by simp
  have "inner_scan parse (buffer @ ext) (0 + ?p1) (0 + ?p1) =
     (fst (inner_scan parse (drop ?p1 (buffer @ ext)) 0 0),
      snd (inner_scan parse (drop ?p1 (buffer @ ext)) 0 0) + ?p1)"
    by (rule inner_scan_shift)
  then have sh: "inner_scan parse (buffer @ ext) ?p1 ?p1 =
     (fst (inner_scan parse (drop ?p1 buffer @ ext) 0 0),
      snd (inner_scan parse (drop ?p1 buffer @ ext) 0 0) + ?p1)"
    using b by simp
  have "pending parse buffer 0 0" by (simp add: pending_refl)
  from inner_scan_extend[OF this, of ext] show ?thesis unfolding sh by simp
qed

lemma inner_loop_cut:
  "inner_loop parse buffer p s = cut (inner_scan parse buffer p s)"
proof (induction "length buffer - s" arbitrary: p s rule: less_induct)
  case less
  show ?case
  proof (cases "indexOf buffer (CHR 0x0A) s")
    case None
    then show ?thesis
      by (subst inner_loop.simps, subst inner_scan.simps) (simp add: cut_def)
  next
    case (Some n)
    then have n: "s \<le> n" "n < length buffer" unfolding indexOf_Some_iff by auto
    have IH1: "inner_loop parse buffer (Suc n) (Suc n) = cut (inner_scan parse buffer (Suc n) (Suc n))"
      using n by (intro less.hyps) auto
    have IH2: "Suc n < length buffer \<Longrightarrow>
        inner_loop parse buffer p (Suc n) = cut (inner_scan parse buffer p (Suc n))"
      using n by (intro less.hyps) auto
    show ?thesis
      by (subst inner_loop.simps, subst inner_scan.simps)
         (simp add: Some IH1 IH2 cut_def Let_def not_le split: prod.splits)
  qed
qed

lemma takeWhile_all_append:
  "list_all P xs \<Longrightarrow> takeWhile P (xs @ ys) = xs @ takeWhile P ys"
  by (simp add: list_all_iff)

lemma takeWhile_not_all_append:
  "\<not> list_all P xs \<Longrightarrow> takeWhile P (xs @ ys) = takeWhile P xs"
  by (induction xs) auto

lemma takeWhile_all: "list_all P xs \<Longrightarrow> takeWhile P xs = xs"
  by (simp add: list_all_iff)

lemma read_loop_Cons:
  "read_loop parse buffer (c # cs) =
     (if list_all convertible (fst (inner_scan parse (buffer @ c) 0 0))
      then (fst (inner_scan parse (buffer @ c) 0 0)
              @ fst (read_loop parse (drop (snd (inner_scan parse (buffer @ c) 0 0)) (buffer @ c)) cs),
            snd (read_loop parse (drop (snd (inner_scan parse (buffer @ c) 0 0)) (buffer @ c)) cs))
      else (takeWhile convertible (fst (inner_scan parse (buffer @ c) 0 0)), Some TypeError))"
  by (simp add: read_loop.simps inner_loop_cut cut_def takeWhile_all Let_def substring_from_def
        split: prod.splits)

lemma drop_add_append:
  assumes "p \<le> length xs"
  shows "drop (q + p) (xs @ d) = drop q (drop p xs @ d)"
proof -
  have "drop (q + p) (xs @ d) = drop q (drop p (xs @ d))" by (simp only: drop_drop)
  also have "drop p (xs @ d) = drop p xs @ d" using assms by simp
  finally show ?thesis .
qed

lemma read_loop_merge:
  "read_loop parse buffer (c # d # cs) = read_loop parse buffer ((c @ d) # cs)"
proof -
  define A where "A = inner_scan parse (buffer @ c) 0 0"
  define buf2 where "buf2 = drop (snd A) (buffer @ c)"
  define B where "B = inner_scan parse (buf2 @ d) 0 0"
  define rest where "rest = read_loop parse (drop (snd B) (buf2 @ d)) cs"
  have b: "snd A \<le> length (buffer @ c)"
    unfolding A_def using inner_scan_bound[of 0 "buffer @ c" parse] by simp
  have ap: "inner_scan parse (buffer @ c @ d) 0 0 = (fst A @ fst B, snd B + snd A)"
    unfolding B_def buf2_def A_def using inner_scan_append[of parse "buffer @ c" d] by simp
  have dr: "drop (snd B + snd A) (buffer @ c @ d) = drop (snd B) (buf2 @ d)"
    unfolding buf2_def using drop_add_append[OF b, of "snd B" d] by simp
  have 1: "read_loop parse buffer (c # d # cs) =
     (if list_all convertible (fst A)
      then (fst A @ fst (read_loop parse buf2 (d # cs)), snd (read_loop parse buf2 (d # cs)))
      else (takeWhile convertible (fst A), Some TypeError))"
    unfolding buf2_def A_def by (rule read_loop_Cons)
  have 2: "read_loop parse buf2 (d # cs) =
     (if list_all convertible (fst B) then (fst B @ fst rest, snd rest)
      else (takeWhile convertible (fst B), Some TypeError))"
    unfolding rest_def B_def by (rule read_loop_Cons)
  have "read_loop parse buffer ((c @ d) # cs) =
     (if list_all convertible (fst (inner_scan parse (buffer @ c @ d) 0 0))
      then (fst (inner_scan parse (buffer @ c @ d) 0 0)
              @ fst (read_loop parse (drop (snd (inner_scan parse (buffer @ c @ d) 0 0)) (buffer @ c @ d)) cs),
            snd (read_loop parse (drop (snd (inner_scan parse (buffer @ c @ d) 0 0)) (buffer @ c @ d)) cs))
      else (takeWhile convertible (fst (inner_scan parse (buffer @ c @ d) 0 0)), Some TypeError))"
    using read_loop_Cons[of parse buffer "c @ d" cs] by (simp only: append_assoc)
  then have 3: "read_loop parse buffer ((c @ d) # cs) =
     (if list_all convertible (fst A @ fst B) then ((fst A @ fst B) @ fst rest, snd rest)
      else (takeWhile convertible (fst A @ fst B), Some TypeError))"
    unfolding ap fst_conv snd_conv dr rest_def .
  show ?thesis
    unfolding 1 2 3 by (simp add: takeWhile_all_append takeWhile_not_all_append)
qed

lemma read_loop_concat:
  "read_loop parse buffer (c # cs) = read_loop parse buffer [concat (c # cs)]"
proof (induction cs arbitrary: c)
  case Nil
  then show ?case by simp
next
  case (Cons d cs)
  have "read_loop parse buffer (c # d # cs) = read_loop parse buffer ((c @ d) # cs)"
    by (rule read_loop_merge)
  also have "\<dots> = read_loop parse buffer [concat ((c @ d) # cs)]" by (rule Cons.IH)
  finally show ?case by simp
qed

lemma inner_scan_Nil: "inner_scan parse [] 0 0 = ([], 0)"
  by (simp add: inner_scan_None indexOf_def)

lemma read_loop_chunking:
  "read_loop parse [] chunks = read_loop parse [] [concat chunks]"
proof (cases chunks)
  case Nil
  then show ?thesis
    by (simp add: read_loop_Cons inner_scan_Nil final_buffer_def)
next
  case (Cons c cs)
  show ?thesis unfolding Cons by (rule read_loop_concat)
qed

lemma trim_Nil_iff: "trim s = [] \<longleftrightarrow> (\<forall>c\<in>set s. is_space c)"
proof
  assume "trim s = []"
  then have "\<forall>c\<in>set (dropWhile is_space s). is_space c"
    by (simp add: trim_def dropWhile_eq_Nil_conv)
  then have "dropWhile is_space s = []"
    using hd_dropWhile[of is_space s] hd_in_set[of "dropWhile is_space s"] by blast
  then show "\<forall>c\<in>set s. is_space c" by (simp add: dropWhile_eq_Nil_conv)
next
  assume "\<forall>c\<in>set s. is_space c"
  then show "trim s = []" by (auto simp: trim_def dest: set_dropWhileD)
qed

lemma split_not_Nil: "split c s \<noteq> []"
  by (induction s) (auto split: list.splits)

lemma split_subset: "l \<in> set (split c s) \<Longrightarrow> set l \<subseteq> set s"
proof (induction s arbitrary: l)
  case Nil
  then show ?case by simp
next
  case (Cons x xs)
  then show ?case by (fastforce split: if_splits list.splits)
qed

lemma split_no_sep: "c \<notin> set r \<Longrightarrow> split c r = [r]"
  by (induction r) auto

lemma split_append_sep: "split c (xs @ c # r) = split c xs @ split c r"
proof (induction xs)
  case Nil
  then show ?case by simp
next
  case (Cons x xs)
  obtain l ls where sp: "split c xs = l # ls" using split_not_Nil[of c xs] by (cases "split c xs") auto
  show ?case using Cons sp by simp
qed

lemma final_line_blank: "trim l = [] \<Longrightarrow> final_line parse l = []"
  by (simp add: final_line_def)

lemma final_buffer_lines:
  "final_buffer parse buffer = concat (map (final_line parse) (split (CHR 0x0A) buffer))"
proof (cases "trim buffer = []")
  case True
  have "final_line parse l = []" if "l \<in> set (split (CHR 0x0A) buffer)" for l
  proof -
    have "set l \<subseteq> set buffer" using that by (rule split_subset)
    then have "trim l = []" using True unfolding trim_Nil_iff by blast
    then show ?thesis by (rule final_line_blank)
  qed
  then have "concat (map (final_line parse) (split (CHR 0x0A) buffer)) = []" by simp
  then show ?thesis using True by (simp add: final_buffer_def)
next
  case False
  then show ?thesis by (simp add: final_buffer_def)
qed

lemma final_buffer_remnant:
  assumes "rest = [] \<or> last rest = CHR 0x0A" "CHR 0x0A \<notin> set remnant"
    "final_line parse remnant = []"
  shows "final_buffer parse (rest @ remnant) = final_buffer parse rest"
proof (cases "rest = []")
  case True
  then show ?thesis using assms by (simp add: final_buffer_lines split_no_sep final_line_blank trim_def)
next
  case False
  then obtain r where r: "rest = r @ [CHR 0x0A]" using assms(1) by (metis append_butlast_last_id)
  have 1: "split (CHR 0x0A) (rest @ remnant) = split (CHR 0x0A) r @ [remnant]"
    using split_append_sep[of "CHR 0x0A" r remnant] assms(2) by (simp add: r split_no_sep)
  have 2: "split (CHR 0x0A) rest = split (CHR 0x0A) r @ [[]]"
    using split_append_sep[of "CHR 0x0A" r "[]"] by (simp add: r)
  show ?thesis unfolding final_buffer_lines 1 2 using assms(3) by (simp add: final_line_blank trim_def)
qed

lemma indexOf_append_None:
  assumes "indexOf s c start = None" "c \<notin> set e"
  shows "indexOf (s @ e) c start = None"
  using assms unfolding indexOf_None_iff by (auto simp: nth_append)

lemma inner_scan_remnant:
  assumes "CHR 0x0A \<notin> set remnant"
  shows "inner_scan parse (buffer @ remnant) 0 0 = inner_scan parse buffer 0 0"
proof -
  let ?p1 = "snd (inner_scan parse buffer 0 0)"
  have p0: "pending parse buffer 0 0" by (simp add: pending_refl)
  obtain s' where s': "pending parse buffer ?p1 s'" "indexOf buffer (CHR 0x0A) s' = None"
    using inner_scan_quiesce[OF p0] by blast
  have pe: "pending parse (buffer @ remnant) ?p1 s'" using s'(1) by (rule pending_append)
  have "?p1 \<le> s'" using s'(1) unfolding pending_def by simp
  then have "inner_scan parse (buffer @ remnant) ?p1 ?p1 = inner_scan parse (buffer @ remnant) ?p1 s'"
    using inner_scan_restart[OF pe, of ?p1] by simp
  also have "\<dots> = ([], ?p1)"
    using indexOf_append_None[OF s'(2) assms] by (rule inner_scan_None)
  finally have B: "inner_scan parse (buffer @ remnant) ?p1 ?p1 = ([], ?p1)" .
  show ?thesis using inner_scan_extend[OF p0, of remnant] B by simp
qed

lemma read_loop_single:
  "read_loop parse [] [s] =
     (if list_all convertible (fst (inner_scan parse s 0 0))
      then (fst (inner_scan parse s 0 0)
              @ final_buffer parse (drop (snd (inner_scan parse s 0 0)) s), None)
      else (takeWhile convertible (fst (inner_scan parse s 0 0)), Some TypeError))"
  using read_loop_Cons[of parse "[]" s "[]"] by simp

lemma read_loop_remnant:
  assumes "concat chunks = stream @ remnant"
    "stream = [] \<or> last stream = CHR 0x0A" "CHR 0x0A \<notin> set remnant"
    "parse (slice_from (trim remnant) 6) = None"
  shows "read_loop parse [] chunks = read_loop parse [] [stream]"
proof -
  let ?p1 = "snd (inner_scan parse stream 0 0)"
  have b: "?p1 \<le> length stream" using inner_scan_bound[of 0 stream parse] by simp
  have fl: "final_line parse remnant = []" using assms(4) by (simp add: final_line_def Let_def)
  have rest: "drop ?p1 stream = [] \<or> last (drop ?p1 stream) = CHR 0x0A"
    using assms(2) by (cases "?p1 < length stream") auto
  have fb: "final_buffer parse (drop ?p1 (stream @ remnant)) = final_buffer parse (drop ?p1 stream)"
    using final_buffer_remnant[OF rest assms(3) fl] b by simp
  have "read_loop parse [] chunks = read_loop parse [] [stream @ remnant]"
    using read_loop_chunking[of parse chunks] assms(1) by simp
  also have "\<dots> = read_loop parse [] [stream]"
    unfolding read_loop_single inner_scan_remnant[OF assms(3)] fb ..
  finally show ?thesis .
qed

lemma inner_scan_truthy: "list_all truthy (fst (inner_scan parse buffer p s))"
proof (induction "length buffer - s" arbitrary: p s rule: less_induct)
  case less
  show ?case
  proof (cases "indexOf buffer (CHR 0x0A) s")
    case None
    then show ?thesis by (simp add: inner_scan_None)
  next
    case (Some n)
    then have n: "s \<le> n" "n < length buffer" unfolding indexOf_Some_iff by auto
    have IH1: "list_all truthy (fst (inner_scan parse buffer (n + 1) (n + 1)))"
      using n by (intro less.hyps) auto
    have IH2: "n + 1 < length buffer \<Longrightarrow> list_all truthy (fst (inner_scan parse buffer p (n + 1)))"
      using n by (intro less.hyps) auto
    show ?thesis
    proof (cases "trim (substring buffer p n) = []")
      case True
      then show ?thesis using IH1 by (simp add: inner_scan_blank[OF Some])
    next
      case nonblank: False
      show ?thesis
      proof (cases "incomplete (processLine parse (substring buffer p n))")
        case True
        then show ?thesis using IH2 by (simp add: inner_scan_incomplete[OF Some nonblank])
      next
        case False
        then show ?thesis using IH1 by (simp add: inner_scan_complete[OF Some nonblank])
      qed
    qed
  qed
qed

lemma takeWhile_truthy: "list_all truthy xs \<Longrightarrow> list_all truthy (takeWhile P xs)"
  by (auto simp: list_all_iff dest: set_takeWhileD)

lemma final_line_truthy: "list_all truthy (final_line parse l)"
  by (simp add: final_line_def Let_def split: option.splits sum.splits)

lemma final_buffer_truthy: "list_all truthy (final_buffer parse buffer)"
  by (simp add: final_buffer_lines list_all_iff final_line_truthy[unfolded list_all_iff])

lemma read_loop_truthy: "list_all truthy (fst (read_loop parse buffer chunks))"
proof (induction chunks arbitrary: buffer)
  case Nil
  then show ?case by (simp add: final_buffer_truthy)
next
  case (Cons c cs)
  then show ?case unfolding read_loop_Cons by (simp add: inner_scan_truthy takeWhile_truthy)
qed

lemma streamChatCompletion_truthy:
  "list_all truthy (fst (streamChatCompletion fetch parse messages options))"
  using read_loop_truthy[of parse "[]"]
  by (auto simp: streamChatCompletion_def Let_def split: sum.splits if_splits option.splits)



section \<open>The proxy loops\<close>

lemma fetch_url_proxies_prefix:
  "take (length (fst (fetch_url_proxies get target ps))) (map (\<lambda>g. g target) ps)
     = fst (fetch_url_proxies get target ps)"
  by (induction ps) (auto simp: Let_def split: reply.splits prod.splits)

lemma fetch_url_proxies_Some:
  "snd (fetch_url_proxies get target ps) = Some r \<Longrightarrow>
     fst (fetch_url_proxies get target ps) \<noteq> []
     \<and> get (last (fst (fetch_url_proxies get target ps))) = Ok r
     \<and> list_all (\<lambda>u. \<not> is_ok (get u)) (butlast (fst (fetch_url_proxies get target ps)))"
  by (induction ps) (auto simp: Let_def split: reply.splits prod.splits)

lemma fetch_url_proxies_None:
  "snd (fetch_url_proxies get target ps) = None \<Longrightarrow>
     fst (fetch_url_proxies get target ps) = map (\<lambda>g. g target) ps
     \<and> list_all (\<lambda>u. \<not> is_ok (get u)) (map (\<lambda>g. g target) ps)"
  by (induction ps) (auto simp: Let_def split: reply.splits prod.splits)

lemma fetchUrlContent_loop_prefix:
  "take (length (fst (fetchUrlContent_loop fetch ex1 ex2 target ps))) (map (\<lambda>g. g target) ps)
     = fst (fetchUrlContent_loop fetch ex1 ex2 target ps)"
  by (induction ps) (auto simp: Let_def split: reply.splits prod.splits)

lemma fetchUrlContent_loop_Fetched:
  "snd (fetchUrlContent_loop fetch ex1 ex2 target ps) = Fetched u c t \<Longrightarrow>
     fst (fetchUrlContent_loop fetch ex1 ex2 target ps) \<noteq> []
     \<and> is_ok (fetch (last (fst (fetchUrlContent_loop fetch ex1 ex2 target ps))))
     \<and> list_all (\<lambda>u. \<not> is_ok (fetch u)) (butlast (fst (fetchUrlContent_loop fetch ex1 ex2 target ps)))"
  by (induction ps) (auto simp: Let_def split: reply.splits prod.splits)

lemma fetchUrlContent_loop_NotFetched:
  "snd (fetchUrlContent_loop fetch ex1 ex2 target ps) = NotFetched u e \<Longrightarrow>
     fst (fetchUrlContent_loop fetch ex1 ex2 target ps) = map (\<lambda>g. g target) ps
     \<and> list_all (\<lambda>u. \<not> is_ok (fetch u)) (map (\<lambda>g. g target) ps)
     \<and> u = target \<and> e = ''Failed to fetch URL content through available proxies''"
  by (induction ps) (auto simp: Let_def split: reply.splits prod.splits)


lemma fetch_url_response_fst:
  "fst (fetch_url_response get target) =
     (if is_ok (get target) then [target] else target # fst (fetch_url_proxies get target corsProxies))"
  by (cases "get target") (simp_all add: fetch_url_response_def split: prod.splits)

lemma fetch_url_response_snd:
  "\<not> is_ok (get target) \<Longrightarrow>
     snd (fetch_url_response get target) = snd (fetch_url_proxies get target corsProxies)"
  by (cases "get target") (simp_all add: fetch_url_response_def split: prod.splits)

lemma fetch_url_response_direct:
  "get target = Ok r \<Longrightarrow> fetch_url_response get target = ([target], Some r)"
  by (simp add: fetch_url_response_def)
section \<open>The aggregators, source by source\<close>

lemma fresh_by_append:
  "fresh_by dup seen (xs @ ys) \<longleftrightarrow> fresh_by dup seen xs \<and> fresh_by dup (seen @ xs) ys"
  by (induction xs arbitrary: seen) auto

lemma fresh_by_take: "fresh_by dup seen xs \<Longrightarrow> fresh_by dup seen (take n xs)"
  using fresh_by_append[of dup seen "take n xs" "drop n xs"] by simp







lemma slice0_cap: "0 \<le> m \<Longrightarrow> of_nat (length (slice0 xs m)) \<le> m"
proof -
  assume m: "0 \<le> m"
  have "length (take (nat \<lfloor>m\<rfloor>) xs) \<le> nat \<lfloor>m\<rfloor>" by simp
  then have "(of_nat (length (take (nat \<lfloor>m\<rfloor>) xs)) :: rat) \<le> of_nat (nat \<lfloor>m\<rfloor>)"
    by (simp only: of_nat_le_iff)
  also have "\<dots> = of_int \<lfloor>m\<rfloor>" using m by simp
  also have "\<dots> \<le> m" by simp
  finally show ?thesis using m by (simp add: slice0_def)
qed






























lemma listed_three: "map url (listed_results busy_world ''isabelle'' 3)
  = [''https://example.org/0'', ''https://example.org/1'', ''https://example.org/2'']"
  by code_simp


section \<open>Claims about the streaming decoder\<close>

text \<open>
  C1 (chunking independence). Two responses that differ only in how the body is split
  into chunks make \<open>streamChatCompletion\<close> yield the same fragments in the same order
  and end in the same way, normally or with the same error: the outcome depends on the
  concatenation of the chunks only. One chunk, single characters and any other split
  points are instances.
\<close>

theorem chunking_independence:
  assumes "fetch1 (chatRequest messages options) = Inr r"
    and "fetch2 (chatRequest messages options) = Inr (r\<lparr>body := chunks\<rparr>)"
    and "concat chunks = concat (body r)"
  shows "streamChatCompletion fetch1 parse messages options =
         streamChatCompletion fetch2 parse messages options"
proof -
  have "read_loop parse [] (body r) = read_loop parse [] chunks"
    using read_loop_chunking[of parse "body r"] read_loop_chunking[of parse chunks] assms(3)
    by simp
  then show ?thesis by (simp add: streamChatCompletion_def assms cong: sum.case_cong)
qed

lemma useStreaming_default: "useStreaming default_options"
  by code_simp

lemma sample_one_chunk:
  "streamChatCompletion (reply_ok [sample_stream]) JSON_parse [] default_options
     = ([JString ''Hel'', JString ''lo''], None)"
  by code_simp

lemma sample_split_direct:
  "streamChatCompletion (reply_ok sample_split) JSON_parse [] default_options
     = ([JString ''Hel'', JString ''lo''], None)"
  by code_simp

theorem chunking_independence_witness:
  "concat sample_split = concat [sample_stream]
   \<and> streamChatCompletion (reply_ok sample_split) JSON_parse [] default_options
       = ([JString ''Hel'', JString ''lo''], None)
   \<and> streamChatCompletion (reply_ok [sample_stream]) JSON_parse [] default_options
       = ([JString ''Hel'', JString ''lo''], None)"
proof -
  have c: "concat sample_split = concat [sample_stream]"
    by (simp add: sample_split_def sample_stream_def)
  have "streamChatCompletion (reply_ok sample_split) JSON_parse [] default_options
      = streamChatCompletion (reply_ok [sample_stream]) JSON_parse [] default_options"
    by (rule chunking_independence[where r = "\<lparr>ok = True, status = 200, body = sample_split\<rparr>"
          and chunks = "[sample_stream]"])
       (simp_all add: reply_ok_def c)
  then show ?thesis using c sample_one_chunk by simp
qed

text \<open>
  The last line of a stream that ends in the middle of an event: a line without a line
  end whose payload \<open>JSON.parse\<close> rejects adds no fragment and no error of its own. The
  outcome is that of the stream before it.
\<close>

lemma terminal_remnant_dropped:
  assumes "fetch (chatRequest messages options) = Inr r" and "ok r" and "useStreaming options"
    and "concat (body r) = stream @ remnant"
    and "stream = [] \<or> last stream = CHR 0x0A"
    and "CHR 0x0A \<notin> set remnant"
    and "parse (slice_from (trim remnant) 6) = None"
  shows "streamChatCompletion fetch parse messages options = read_loop parse [] [stream]"
  using read_loop_remnant[where parse = parse and chunks = "body r", OF assms(4-7)] assms(1-3)
  by (simp add: streamChatCompletion_def)

lemma truncated_direct:
  "streamChatCompletion (reply_ok [truncated_stream, truncated_remnant]) JSON_parse [] default_options
     = ([JString ''Hi''], None)"
  by code_simp

text \<open>
  The same content reaches the caller when its line is the last of the body and has no
  line end: the loop over the final buffer yields without adding to the running total.
\<close>

lemma object_content_final_buffer:
  \<open>streamChatCompletion (reply_ok [''data: {"content":{"toString":1}}'']) JSON_parse [] default_options
     = ([JObject [(''toString'', JNumber 1)]], None)\<close>
  by code_simp

text \<open>
  C2 (terminal-fragment tolerance). A stream that ends in the middle of an event does
  not always complete without throwing. The extractor takes any truthy field as the
  content, and the read loop adds it to a running total of the text before it yields
  it: when an event before the last line has an object with a member \<open>toString\<close> as its
  content, the addition throws a TypeError that nothing catches, and the generator ends
  with that error and no fragment.
\<close>

theorem terminal_fragment_type_error:
  "streamChatCompletion (reply_ok [object_content_stream, truncated_remnant]) JSON_parse []
     default_options = ([], Some TypeError)"
  by code_simp

text \<open>
  Every fragment that \<open>streamChatCompletion\<close> yields, streamed or not, is truthy: never
  the empty string and never \<open>null\<close>.
\<close>

lemma fragments_never_empty:
  assumes "y \<in> set (fst (streamChatCompletion fetch parse messages options))"
  shows "truthy y \<and> y \<noteq> JString [] \<and> y \<noteq> JNull"
proof -
  have "truthy y"
    using streamChatCompletion_truthy[of fetch parse messages options] assms
    by (simp add: list_all_iff)
  then show ?thesis by auto
qed

lemma empty_delta_skipped:
  "streamChatCompletion (reply_ok [empty_delta_stream]) JSON_parse [] default_options
     = ([JString ''hi''], None)"
  by code_simp

text \<open>
  C3 (no empty fragment). A fragment is never the empty string, but it is not always a
  string, as the claim and the comment on \<open>processLine\<close> have it: the extractor does not
  look at the type of the field it takes, and for an event whose \<open>content\<close> is an array of
  parts the array itself is yielded.
\<close>

theorem array_content_fragment:
  "streamChatCompletion (reply_ok [content_parts_stream]) JSON_parse [] default_options
     = ([JArray [JObject [(''type'', JString ''text''), (''text'', JString ''hi'')]]], None)"
  by code_simp

lemma needsNonStreaming_thinking: "needsNonStreaming ''claude-opus-4.5-thinking''"
  by code_simp

text \<open>
  C7 (streaming policy), as amended. For the model \<open>claude-opus-4.5-thinking\<close> the
  request is sent with \<open>stream = false\<close> whatever \<open>forceNonStreaming\<close> says, and a
  successful response yields the one fragment \<open>choices[0].message.content\<close> when that
  content is truthy, and no fragment when it is absent or not truthy, as for the empty
  string. No error is thrown.
\<close>

theorem thinking_model_non_streaming:
  assumes "model options = Some ''claude-opus-4.5-thinking''"
    and "fetch (chatRequest messages options) = Inr r" and "ok r"
    and "parse (concat (body r)) = Some data"
    and "member data ''choices'' = Inr choices"
  shows "\<not> body_stream (chatRequest messages options)
       \<and> streamChatCompletion fetch parse messages options =
           (case opt_member (opt_member (opt_index0 choices) ''message'') ''content'' of
              None \<Rightarrow> []
            | Some c \<Rightarrow> if truthy c then [c] else [],
            None)"
proof -
  have "\<not> useStreaming options"
    using assms(1) needsNonStreaming_thinking by (simp add: useStreaming_def model_of_def)
  then show ?thesis
    using assms(2-5)
    by (simp add: streamChatCompletion_def chatRequest_def or_else_def split: option.splits)
qed

theorem thinking_model_non_streaming_witness:
  "\<not> body_stream (chatRequest [] thinking_options)
   \<and> streamChatCompletion (reply_ok [message_response]) JSON_parse [] thinking_options
       = ([JString ''Full answer.''], None)"
proof -
  let ?data = "JObject [(''choices'', JArray [JObject [(''message'',
      JObject [(''role'', JString ''assistant''), (''content'', JString ''Full answer.'')])]])]"
  have 1: "model thinking_options = Some ''claude-opus-4.5-thinking''"
    by (simp add: thinking_options_def)
  have 2: "reply_ok [message_response] (chatRequest [] thinking_options)
        = Inr \<lparr>ok = True, status = 200, body = [message_response]\<rparr>"
    by (simp add: reply_ok_def)
  have 3: "ok \<lparr>ok = True, status = 200, body = [message_response]\<rparr>" by simp
  have 4: "JSON_parse (concat (body \<lparr>ok = True, status = 200, body = [message_response]\<rparr>))
        = Some ?data" by code_simp
  have 5: "member ?data ''choices'' = Inr (Some (JArray [JObject [(''message'',
      JObject [(''role'', JString ''assistant''), (''content'', JString ''Full answer.'')])]]))"
    by code_simp
  have 6: "opt_member (opt_member (opt_index0 (Some (JArray [JObject [(''message'',
      JObject [(''role'', JString ''assistant''), (''content'', JString ''Full answer.'')])]])))
        ''message'') ''content'' = Some (JString ''Full answer.'')"
    by code_simp
  show ?thesis
    using thinking_model_non_streaming[where fetch = "reply_ok [message_response]"
        and parse = JSON_parse, OF 1 2 3 4 5] 6 by simp
qed

theorem thinking_model_empty_counterexample:
  "streamChatCompletion (reply_ok [empty_message_response]) JSON_parse [] thinking_options = ([], None)"
  by code_simp

lemma thinking_model_absent_content:
  "streamChatCompletion (reply_ok [null_delta_content_response]) JSON_parse [] thinking_options
     = ([], None)"
  by code_simp


section \<open>Claims about the proxy chain\<close>

text \<open>
  C9 (proxy-chain fetch contract), as amended. \<open>fetch_url\<close> of the MCP server requests
  the target first and then the proxies in their order: the requests are a prefix of the
  chain, so no entry is requested twice; it stops at the first successful reply, which
  is the response it uses; and when the target and every proxy have failed it returns
  one error reply. \<open>fetchUrlContent\<close> of the web client does the same over the proxies
  alone: it never requests the target itself, even when the target would answer.
\<close>

theorem proxy_chain_contract:
  "take (length (fst (fetch_url_response get target))) (target # proxy_chain target)
     = fst (fetch_url_response get target)
   \<and> fst (fetch_url_response get target) \<noteq> []
   \<and> hd (fst (fetch_url_response get target)) = target
   \<and> (\<forall>r. snd (fetch_url_response get target) = Some r \<longrightarrow>
          get (last (fst (fetch_url_response get target))) = Ok r
          \<and> list_all (\<lambda>u. \<not> is_ok (get u)) (butlast (fst (fetch_url_response get target))))
   \<and> (snd (fetch_url_response get target) = None \<longrightarrow>
          fst (fetch_url_response get target) = target # proxy_chain target
          \<and> list_all (\<lambda>u. \<not> is_ok (get u)) (target # proxy_chain target)
          \<and> fetch_url get render target extract_text =
              (target # proxy_chain target,
               \<lparr>reply_text = ''Error fetching URL '' @ [CHR 0x22] @ target @ [CHR 0x22]
                    @ '': Failed to fetch URL through all available methods'',
                isError = True\<rparr>))
   \<and> take (length (fst (fetchUrlContent fetch extractTextFromHtml extractTitle target)))
          (proxy_chain target)
       = fst (fetchUrlContent fetch extractTextFromHtml extractTitle target)
   \<and> (\<forall>u c t. snd (fetchUrlContent fetch extractTextFromHtml extractTitle target) = Fetched u c t \<longrightarrow>
          is_ok (fetch (last (fst (fetchUrlContent fetch extractTextFromHtml extractTitle target))))
          \<and> list_all (\<lambda>u. \<not> is_ok (fetch u))
                (butlast (fst (fetchUrlContent fetch extractTextFromHtml extractTitle target))))
   \<and> (\<forall>u e. snd (fetchUrlContent fetch extractTextFromHtml extractTitle target) = NotFetched u e \<longrightarrow>
          fst (fetchUrlContent fetch extractTextFromHtml extractTitle target) = proxy_chain target
          \<and> list_all (\<lambda>u. \<not> is_ok (fetch u)) (proxy_chain target)
          \<and> u = target \<and> e = ''Failed to fetch URL content through available proxies'')"
proof (intro conjI allI impI)
  show "take (length (fst (fetch_url_response get target))) (target # proxy_chain target)
     = fst (fetch_url_response get target)"
    using fetch_url_proxies_prefix[of get target corsProxies]
    by (simp add: fetch_url_response_fst proxy_chain_def)
  show "fst (fetch_url_response get target) \<noteq> []"
    by (simp add: fetch_url_response_fst)
  show "hd (fst (fetch_url_response get target)) = target"
    by (simp add: fetch_url_response_fst)
next
  fix r assume a: "snd (fetch_url_response get target) = Some r"
  show "get (last (fst (fetch_url_response get target))) = Ok r"
  proof (cases "is_ok (get target)")
    case True
    then obtain x where "get target = Ok x" by (cases "get target") auto
    then show ?thesis using a by (simp add: fetch_url_response_direct)
  next
    case False
    then have "snd (fetch_url_proxies get target corsProxies) = Some r"
      using a by (simp add: fetch_url_response_snd)
    from fetch_url_proxies_Some[OF this] show ?thesis
      using False by (simp add: fetch_url_response_fst)
  qed
  show "list_all (\<lambda>u. \<not> is_ok (get u)) (butlast (fst (fetch_url_response get target)))"
  proof (cases "is_ok (get target)")
    case True
    then obtain x where "get target = Ok x" by (cases "get target") auto
    then show ?thesis by (simp add: fetch_url_response_direct)
  next
    case False
    then have "snd (fetch_url_proxies get target corsProxies) = Some r"
      using a by (simp add: fetch_url_response_snd)
    from fetch_url_proxies_Some[OF this] show ?thesis
      using False by (simp add: fetch_url_response_fst)
  qed
next
  assume a: "snd (fetch_url_response get target) = None"
  have nok: "\<not> is_ok (get target)"
  proof
    assume "is_ok (get target)"
    then obtain x where "get target = Ok x" by (cases "get target") auto
    then show False using a by (simp add: fetch_url_response_direct)
  qed
  then have n: "snd (fetch_url_proxies get target corsProxies) = None"
    using a by (simp add: fetch_url_response_snd)
  note N = fetch_url_proxies_None[OF n]
  show 1: "fst (fetch_url_response get target) = target # proxy_chain target"
    using N nok by (simp add: fetch_url_response_fst proxy_chain_def)
  show "list_all (\<lambda>u. \<not> is_ok (get u)) (target # proxy_chain target)"
    using N nok by (simp add: proxy_chain_def)
  show "fetch_url get render target extract_text =
              (target # proxy_chain target,
               \<lparr>reply_text = ''Error fetching URL '' @ [CHR 0x22] @ target @ [CHR 0x22]
                    @ '': Failed to fetch URL through all available methods'',
                isError = True\<rparr>)"
  proof -
    have "fetch_url_response get target = (target # proxy_chain target, None)"
      using 1 a by (simp add: prod_eq_iff)
    then show ?thesis by (simp add: fetch_url_def)
  qed
next
  show "take (length (fst (fetchUrlContent fetch extractTextFromHtml extractTitle target)))
          (proxy_chain target)
       = fst (fetchUrlContent fetch extractTextFromHtml extractTitle target)"
    unfolding fetchUrlContent_def proxy_chain_def by (rule fetchUrlContent_loop_prefix)
next
  fix u c t
  assume "snd (fetchUrlContent fetch extractTextFromHtml extractTitle target) = Fetched u c t"
  then have "snd (fetchUrlContent_loop fetch extractTextFromHtml extractTitle target corsProxies)
      = Fetched u c t" by (simp add: fetchUrlContent_def)
  from fetchUrlContent_loop_Fetched[OF this]
  show "is_ok (fetch (last (fst (fetchUrlContent fetch extractTextFromHtml extractTitle target))))"
    and "list_all (\<lambda>u. \<not> is_ok (fetch u))
                (butlast (fst (fetchUrlContent fetch extractTextFromHtml extractTitle target)))"
    by (simp_all add: fetchUrlContent_def)
next
  fix u e
  assume "snd (fetchUrlContent fetch extractTextFromHtml extractTitle target) = NotFetched u e"
  then have "snd (fetchUrlContent_loop fetch extractTextFromHtml extractTitle target corsProxies)
      = NotFetched u e" by (simp add: fetchUrlContent_def)
  from fetchUrlContent_loop_NotFetched[OF this]
  show "fst (fetchUrlContent fetch extractTextFromHtml extractTitle target) = proxy_chain target"
    and "list_all (\<lambda>u. \<not> is_ok (fetch u)) (proxy_chain target)"
    and "u = target" and "e = ''Failed to fetch URL content through available proxies''"
    by (simp_all add: fetchUrlContent_def proxy_chain_def)
qed

lemma ex_fetch_url:
  "fetch_url_response third_proxy_only ''https://example.com/'' =
     ([''https://example.com/'',
       ''https://api.allorigins.win/raw?url=https%3A%2F%2Fexample.com%2F'',
       ''https://corsproxy.io/?https%3A%2F%2Fexample.com%2F'',
       ''https://api.codetabs.com/v1/proxy?quest=https%3A%2F%2Fexample.com%2F''],
      Some ''<title>Example</title>'')"
  by code_simp

theorem proxy_chain_contract_witness:
  "fetch_url_response third_proxy_only ''https://example.com/'' =
     ([''https://example.com/'',
       ''https://api.allorigins.win/raw?url=https%3A%2F%2Fexample.com%2F'',
       ''https://corsproxy.io/?https%3A%2F%2Fexample.com%2F'',
       ''https://api.codetabs.com/v1/proxy?quest=https%3A%2F%2Fexample.com%2F''],
      Some ''<title>Example</title>'')
   \<and> third_proxy_only ''https://api.codetabs.com/v1/proxy?quest=https%3A%2F%2Fexample.com%2F''
       = Ok ''<title>Example</title>''
   \<and> list_all (\<lambda>u. \<not> is_ok (third_proxy_only u))
        [''https://example.com/'',
         ''https://api.allorigins.win/raw?url=https%3A%2F%2Fexample.com%2F'',
         ''https://corsproxy.io/?https%3A%2F%2Fexample.com%2F'']"
  using proxy_chain_contract[of third_proxy_only "''https://example.com/''"] ex_fetch_url
  by simp

theorem no_direct_attempt_counterexample:
  "fetchUrlContent only_direct whole_page no_title ''https://example.com/'' =
     ([''https://api.allorigins.win/raw?url=https%3A%2F%2Fexample.com%2F'',
       ''https://corsproxy.io/?https%3A%2F%2Fexample.com%2F'',
       ''https://api.codetabs.com/v1/proxy?quest=https%3A%2F%2Fexample.com%2F''],
      NotFetched ''https://example.com/'' ''Failed to fetch URL content through available proxies'')
   \<and> only_direct ''https://example.com/'' = Ok ''<title>Example</title>''"
  by code_simp
section \<open>Claims about the intent classifier\<close>

text \<open>
  C8 (intent totality and priority). \<open>detectQueryIntent\<close> returns one of the five
  intents for every query; it returns \<open>time\<close> exactly when a time pattern matches the
  lower-cased query, \<open>weather\<close> exactly when no time pattern and a weather pattern
  matches, then \<open>currency\<close>, then \<open>news\<close> in the same way, and \<open>search\<close> exactly when
  no pattern matches, as for the empty query.
\<close>

theorem intent_total_and_ordered:
  "detectQueryIntent query \<in> set [''time'', ''weather'', ''currency'', ''news'', ''search'']
   \<and> (detectQueryIntent query = ''time'' \<longleftrightarrow>
        list_ex (\<lambda>p. test p (toLowerCase query)) timePatterns)
   \<and> (detectQueryIntent query = ''weather'' \<longleftrightarrow>
        \<not> list_ex (\<lambda>p. test p (toLowerCase query)) timePatterns
        \<and> list_ex (\<lambda>p. test p (toLowerCase query)) weatherPatterns)
   \<and> (detectQueryIntent query = ''currency'' \<longleftrightarrow>
        \<not> list_ex (\<lambda>p. test p (toLowerCase query)) timePatterns
        \<and> \<not> list_ex (\<lambda>p. test p (toLowerCase query)) weatherPatterns
        \<and> list_ex (\<lambda>p. test p (toLowerCase query)) currencyPatterns)
   \<and> (detectQueryIntent query = ''news'' \<longleftrightarrow>
        \<not> list_ex (\<lambda>p. test p (toLowerCase query)) timePatterns
        \<and> \<not> list_ex (\<lambda>p. test p (toLowerCase query)) weatherPatterns
        \<and> \<not> list_ex (\<lambda>p. test p (toLowerCase query)) currencyPatterns
        \<and> list_ex (\<lambda>p. test p (toLowerCase query)) newsPatterns)
   \<and> (detectQueryIntent query = ''search'' \<longleftrightarrow>
        \<not> list_ex (\<lambda>p. test p (toLowerCase query)) timePatterns
        \<and> \<not> list_ex (\<lambda>p. test p (toLowerCase query)) weatherPatterns
        \<and> \<not> list_ex (\<lambda>p. test p (toLowerCase query)) currencyPatterns
        \<and> \<not> list_ex (\<lambda>p. test p (toLowerCase query)) newsPatterns)
   \<and> detectQueryIntent [] = ''search''"
proof -
  have e: "detectQueryIntent [] = ''search''" by code_simp
  show ?thesis unfolding detectQueryIntent_def Let_def using e[unfolded detectQueryIntent_def Let_def]
    by simp
qed

lemma weather_news_today: "detectQueryIntent ''Weather news today'' = ''weather''"
  by code_simp

lemma weather_news_today_news:
  "list_ex (\<lambda>p. test p (toLowerCase ''Weather news today'')) newsPatterns"
  by code_simp

theorem intent_total_and_ordered_witness:
  "detectQueryIntent ''Weather news today'' = ''weather''
   \<and> list_ex (\<lambda>p. test p (toLowerCase ''Weather news today'')) newsPatterns
   \<and> list_ex (\<lambda>p. test p (toLowerCase ''Weather news today'')) weatherPatterns
   \<and> \<not> list_ex (\<lambda>p. test p (toLowerCase ''Weather news today'')) timePatterns"
  using intent_total_and_ordered[of "''Weather news today''"] weather_news_today
    weather_news_today_news by simp
section \<open>Claims about the search aggregators\<close>

text \<open>
  C4 (cap invariant), as amended. \<open>performWebSearch\<close> takes no cap: it returns at most
  15 results, which can be more than 10.
  \<open>web_search\<close> lists at most \<open>max_results\<close> results; \<open>max_results\<close> is 10 when the
  call does not give it, and a call that gives a value outside 1 to 20 is rejected, not
  clamped.
\<close>

theorem result_cap:
  "length (returned (performWebSearch w query)) \<le> 15
   \<and> (1 \<le> m \<and> m \<le> 20 \<longrightarrow>
        web_search_tool w \<lparr>arg_query = query, arg_max_results = Some m\<rparr>
          = Inr (web_search w query m)
        \<and> of_nat (length (listed_results w query m)) \<le> m)
   \<and> web_search_tool w \<lparr>arg_query = query, arg_max_results = None\<rparr>
        = Inr (web_search w query 10)
   \<and> length (listed_results w query 10) \<le> 10
   \<and> (m < 1 \<or> 20 < m \<longrightarrow>
        web_search_tool w \<lparr>arg_query = query, arg_max_results = Some m\<rparr> = Inl InvalidParams)"
proof (intro conjI impI)
  show "length (returned (performWebSearch w query)) \<le> 15"
    by (simp add: returned_def performWebSearch_def Let_def)
  show "length (listed_results w query 10) \<le> 10"
    by (simp add: listed_results_def slice0_def)
  show "web_search_tool w \<lparr>arg_query = query, arg_max_results = None\<rparr>
        = Inr (web_search w query 10)"
    by (simp add: web_search_tool_def)
next
  assume m: "1 \<le> m \<and> m \<le> 20"
  show "web_search_tool w \<lparr>arg_query = query, arg_max_results = Some m\<rparr>
          = Inr (web_search w query m)"
    using m by (simp add: web_search_tool_def)
  show "of_nat (length (listed_results w query m)) \<le> m"
    unfolding listed_results_def using m by (intro slice0_cap) simp
next
  assume "m < 1 \<or> 20 < m"
  then show "web_search_tool w \<lparr>arg_query = query, arg_max_results = Some m\<rparr> = Inl InvalidParams"
    by (auto simp: web_search_tool_def)
qed

theorem result_cap_witness:
  "map url (listed_results busy_world ''isabelle'' 3)
     = [''https://example.org/0'', ''https://example.org/1'', ''https://example.org/2'']
   \<and> rat_of_nat (length (listed_results busy_world ''isabelle'' 3)) \<le> 3
   \<and> web_search_tool busy_world \<lparr>arg_query = ''isabelle'', arg_max_results = Some 3\<rparr>
       = Inr (web_search busy_world ''isabelle'' 3)
   \<and> web_search_tool busy_world \<lparr>arg_query = ''isabelle'', arg_max_results = Some 25\<rparr>
       = Inl InvalidParams"
  using result_cap[of busy_world "''isabelle''" 3] result_cap[of busy_world "''isabelle''" 25] listed_three
  by simp

theorem fifteen_results_counterexample:
  "length (returned (performWebSearch busy_world ''isabelle'')) = 15"
  by code_simp






end
